theory Spec2Isabelle
  imports Complex_Main "HOL-Library.Sublist"
begin

section \<open>Numbers of the language\<close>

text \<open>
  A number of the language is a double: NaN, one of the two infinities, or a finite value,
  which is given here by the real number that it is. The two zeros are one value: no
  operation that the programs apply tells them apart.
\<close>

datatype number = NaN | NegInfinity | Finite real | PosInfinity

text \<open>
  Arithmetic gives the double nearest to the exact result, the even one of two nearest.
  \<open>to_double\<close> is this rounding for the binary format of 53 significant bits: below,
  \<open>e\<close> is the exponent of \<open>x\<close>, at least that of the smallest normal number, \<open>ulp\<close>
  is the distance of neighbouring doubles at this exponent, and a rounded value of
  magnitude \<open>2 ^ 1024\<close> or more is an infinity.
\<close>

definition round_half_even :: "real \<Rightarrow> int" where
  "round_half_even y =
     (let f = \<lfloor>y\<rfloor>; d = y - of_int f
      in if d < 1 / 2 then f else if 1 / 2 < d then f + 1 else if even f then f else f + 1)"

definition overflow :: "real \<Rightarrow> number" where
  "overflow r =
     (if 2 ^ 1024 \<le> r then PosInfinity
      else if r \<le> - (2 ^ 1024) then NegInfinity
      else Finite r)"

definition to_double :: "real \<Rightarrow> number" where
  "to_double x =
     (if x = 0 then Finite 0
      else let e = max \<lfloor>log 2 \<bar>x\<bar>\<rfloor> (- 1022);
               ulp = 2 powi (e - 52)
           in overflow (of_int (round_half_even (x / ulp)) * ulp))"

text \<open>A real number is a finite double when the rounding leaves it as it is.\<close>

definition is_double :: "real \<Rightarrow> bool" where
  "is_double x = (to_double x = Finite x)"

text \<open>The operators \<^verbatim>\<open>+\<close>, \<^verbatim>\<open>-\<close> and \<^verbatim>\<open>*\<close> on numbers.\<close>

fun number_add :: "number \<Rightarrow> number \<Rightarrow> number" where
  "number_add NaN _ = NaN"
| "number_add _ NaN = NaN"
| "number_add PosInfinity NegInfinity = NaN"
| "number_add NegInfinity PosInfinity = NaN"
| "number_add PosInfinity _ = PosInfinity"
| "number_add _ PosInfinity = PosInfinity"
| "number_add NegInfinity _ = NegInfinity"
| "number_add _ NegInfinity = NegInfinity"
| "number_add (Finite x) (Finite y) = to_double (x + y)"

fun number_neg :: "number \<Rightarrow> number" where
  "number_neg NaN = NaN"
| "number_neg NegInfinity = PosInfinity"
| "number_neg (Finite x) = Finite (- x)"
| "number_neg PosInfinity = NegInfinity"

definition number_sub :: "number \<Rightarrow> number \<Rightarrow> number" where
  "number_sub a b = number_add a (number_neg b)"

fun negative :: "number \<Rightarrow> bool" where
  "negative NegInfinity = True"
| "negative (Finite x) = (x < 0)"
| "negative _ = False"

fun number_mul :: "number \<Rightarrow> number \<Rightarrow> number" where
  "number_mul NaN _ = NaN"
| "number_mul _ NaN = NaN"
| "number_mul (Finite x) (Finite y) = to_double (x * y)"
| "number_mul a b =
     (if a = Finite 0 \<or> b = Finite 0 then NaN
      else if negative a = negative b then PosInfinity
      else NegInfinity)"

text \<open>
  The comparisons \<^verbatim>\<open><=\<close> and \<^verbatim>\<open>>\<close> of a number with a finite constant: every
  comparison with NaN is false.
\<close>

definition js_le :: "number \<Rightarrow> real \<Rightarrow> bool" where
  "js_le x k =
     (case x of NaN \<Rightarrow> False | NegInfinity \<Rightarrow> True | Finite r \<Rightarrow> r \<le> k
      | PosInfinity \<Rightarrow> False)"

definition js_gt :: "number \<Rightarrow> real \<Rightarrow> bool" where
  "js_gt x k =
     (case x of NaN \<Rightarrow> False | NegInfinity \<Rightarrow> False | Finite r \<Rightarrow> k < r
      | PosInfinity \<Rightarrow> True)"

section \<open>Survival scoring service (prediction-server.js)\<close>

subsection \<open>Request bodies\<close>

text \<open>
  The body of a prediction request is a JSON object. A property of it is either absent
  (reading it gives \<^verbatim>\<open>undefined\<close>), \<^verbatim>\<open>null\<close>, or carries a value. The fields
  have the types of the data model: numbers for \<^verbatim>\<open>pclass\<close>, \<^verbatim>\<open>age\<close>, \<^verbatim>\<open>sibsp\<close>,
  \<^verbatim>\<open>parch\<close> and \<^verbatim>\<open>fare\<close>, strings for \<^verbatim>\<open>sex\<close> and \<^verbatim>\<open>embarked\<close>; a body
  with a value of another type in one of these fields is outside the model. A number of
  a body is a finite double, given by the real number that it is (\<open>is_double\<close>); a real
  number that is no double stands for no number of a body. The sum
  \<^verbatim>\<open>sibsp + parch\<close> of the scoring function is the rounded sum \<open>number_add\<close>; the
  probability is computed over the real numbers, with the real exponential function for
  \<^verbatim>\<open>Math.exp\<close>. Properties beyond the seven named ones live in the extension part of
  the record.
\<close>

datatype 'a field = Undefined | Null | Val 'a

record passengerData =
  pclass :: "real field"
  sex :: "string field"
  age :: "real field"
  sibsp :: "real field"
  parch :: "real field"
  fare :: "real field"
  embarked :: "string field"

text \<open>
  Numeric coercion of a number-typed property: \<^verbatim>\<open>undefined\<close> becomes NaN,
  \<^verbatim>\<open>null\<close> becomes 0. NaN is strictly equal to nothing. \<open>js_add\<close> is the operator
  \<^verbatim>\<open>+\<close> on two such properties.
\<close>

definition ToNumber :: "real field \<Rightarrow> number" where
  "ToNumber v = (case v of Undefined \<Rightarrow> NaN | Null \<Rightarrow> Finite 0 | Val r \<Rightarrow> Finite r)"

definition js_add :: "real field \<Rightarrow> real field \<Rightarrow> number" where
  "js_add a b = number_add (ToNumber a) (ToNumber b)"

subsection \<open>The scoring function\<close>

record features =
  gender_impact :: string
  class_impact :: string
  age_group :: string
  family_impact :: string

record prediction =
  survived :: bool
  probability :: real
  score :: int
  features :: features

text \<open>
  \<^verbatim>\<open>predictSurvival\<close>: the accumulator \<^verbatim>\<open>score\<close> is updated by one statement after
  the other; each \<open>let\<close> below is one statement of the source, in the source's order.
  The label of the youngest age group is the UTF-8 text of the source.
\<close>

definition predictSurvival :: "'a passengerData_scheme \<Rightarrow> prediction" where
  "predictSurvival passengerData =
     (let score = (0 :: int);
          score = (if sex passengerData = Val ''female'' then score + 3 else score);
          score = (if sex passengerData = Val ''male'' then score - 1 else score);
          score = (if pclass passengerData = Val 1 then score + 2 else score);
          score = (if pclass passengerData = Val 2 then score + 1 else score);
          score = (if pclass passengerData = Val 3 then score - 1 else score);
          score = (if js_le (ToNumber (age passengerData)) 12 then score + 2
                   else if js_le (ToNumber (age passengerData)) 25 then score + 1
                   else if js_gt (ToNumber (age passengerData)) 60 then score - 1
                   else score);
          familySize = js_add (sibsp passengerData) (parch passengerData);
          score = (if familySize = Finite 1 \<or> familySize = Finite 2 then score + 1 else score);
          score = (if js_gt familySize 4 then score - 1 else score);
          score = (if js_gt (ToNumber (fare passengerData)) 50 then score + 2
                   else if js_gt (ToNumber (fare passengerData)) 20 then score + 1
                   else score);
          score = (if embarked passengerData = Val ''C'' then score + 1 else score);
          probability = 1 / (1 + exp (- real_of_int score * 0.3));
          survived = (probability > 0.5)
      in \<lparr> survived = survived,
           probability = probability,
           score = score,
           features = \<lparr>
             gender_impact = (if sex passengerData = Val ''female'' then ''Alto'' else ''Bajo''),
             class_impact = (if pclass passengerData = Val 1 then ''Alto''
                             else if pclass passengerData = Val 2 then ''Medio'' else ''Bajo''),
             age_group = (if js_le (ToNumber (age passengerData)) 12
                            then ''Ni'' @ [CHR 0xC3, CHR 0xB1] @ ''o''
                          else if js_le (ToNumber (age passengerData)) 25 then ''Joven''
                          else if js_gt (ToNumber (age passengerData)) 60 then ''Mayor''
                          else ''Adulto''),
             family_impact = (if js_gt familySize 0 then ''Positivo'' else ''Neutral'') \<rparr> \<rparr>)"

subsection \<open>The prediction endpoint\<close>

text \<open>
  \<^verbatim>\<open>passengerData[field]\<close> reads a property by its name. Only the seven names of
  \<^verbatim>\<open>requiredFields\<close> are ever read this way.
\<close>

datatype jsval = JUndefined | JNull | JNum real | JStr string

definition num_prop :: "real field \<Rightarrow> jsval" where
  "num_prop v = (case v of Undefined \<Rightarrow> JUndefined | Null \<Rightarrow> JNull | Val r \<Rightarrow> JNum r)"

definition str_prop :: "string field \<Rightarrow> jsval" where
  "str_prop v = (case v of Undefined \<Rightarrow> JUndefined | Null \<Rightarrow> JNull | Val s \<Rightarrow> JStr s)"

definition get_prop :: "'a passengerData_scheme \<Rightarrow> string \<Rightarrow> jsval" where
  "get_prop passengerData field =
     (if field = ''pclass'' then num_prop (pclass passengerData)
      else if field = ''sex'' then str_prop (sex passengerData)
      else if field = ''age'' then num_prop (age passengerData)
      else if field = ''sibsp'' then num_prop (sibsp passengerData)
      else if field = ''parch'' then num_prop (parch passengerData)
      else if field = ''fare'' then num_prop (fare passengerData)
      else if field = ''embarked'' then str_prop (embarked passengerData)
      else JUndefined)"

definition requiredFields :: "string list" where
  "requiredFields = [''pclass'', ''sex'', ''age'', ''sibsp'', ''parch'', ''fare'', ''embarked'']"

text \<open>
  The validation loop: it returns from the handler at the first field whose value is
  \<^verbatim>\<open>undefined\<close> or \<^verbatim>\<open>null\<close>; \<open>None\<close> means that the loop ran to its end.
\<close>

fun validate :: "'a passengerData_scheme \<Rightarrow> string list \<Rightarrow> string option" where
  "validate passengerData [] = None"
| "validate passengerData (field # rest) =
     (if get_prop passengerData field = JUndefined \<or> get_prop passengerData field = JNull
      then Some field
      else validate passengerData rest)"

record response = prediction +
  message :: string

type_synonym http_error = "nat \<times> string"

text \<open>
  The handler of \<^verbatim>\<open>POST /titanic/predict\<close>. An error response is its status and the
  text of its \<^verbatim>\<open>error\<close> property; a successful response is the prediction and a
  message chosen by its outcome (the UTF-8 text of the source). No statement of the
  \<^verbatim>\<open>try\<close> block can throw on a body of the type above, so the 500 branch is not
  reachable in the model.
\<close>

definition predict_endpoint :: "'a passengerData_scheme \<Rightarrow> http_error + response" where
  "predict_endpoint body =
     (case validate body requiredFields of
        Some field \<Rightarrow> Inl (400, ''Campo requerido faltante: '' @ field)
      | None \<Rightarrow>
          (let prediction = predictSurvival body
           in Inr \<lparr> survived = survived prediction,
                    probability = probability prediction,
                    score = score prediction,
                    features = features prediction,
                    message = (if survived prediction
                               then ''Probable superviviente basado en patrones hist''
                                    @ [CHR 0xC3, CHR 0xB3] @ ''ricos''
                               else ''Probable no superviviente basado en patrones hist''
                                    @ [CHR 0xC3, CHR 0xB3] @ ''ricos'') \<rparr>))"

section \<open>Passenger query service (routers/passengers.js)\<close>

subsection \<open>Passenger records and request parameters\<close>

text \<open>
  A record of the data file: identifier, class and survival flag are integers, name and
  sex are strings; every further property of a record is carried by the extension part and
  passed through unchanged. \<^verbatim>\<open>passengersData.passengers\<close> is a list of such records and
  is a parameter of every handler.
\<close>

record passenger =
  PassengerId :: int
  Pclass :: int
  Survived :: int
  Name :: string
  Sex :: string

text \<open>
  \<^verbatim>\<open>parseInt\<close> with no radix, on the text of a route parameter: leading white space is
  skipped, a sign is read, a prefix \<^verbatim>\<open>0x\<close> or \<^verbatim>\<open>0X\<close> selects radix 16, and the longest
  run of digits of the radix is the value; with no digit the result is NaN (here
  \<open>None\<close>). Characters are bytes, so white space is the ASCII white space, and the
  value is the exact integer (the source rounds it to a double, which changes nothing
  below \<open>2 ^ 53\<close>).
\<close>

definition is_white_space :: "char \<Rightarrow> bool" where
  "is_white_space c = (c \<in> set [CHR 0x20, CHR 0x09, CHR 0x0A, CHR 0x0B, CHR 0x0C, CHR 0x0D])"

definition digit_value :: "char \<Rightarrow> nat" where
  "digit_value c =
     (let n = (of_char c :: nat)
      in if 48 \<le> n \<and> n \<le> 57 then n - 48
         else if 97 \<le> n \<and> n \<le> 122 then n - 87
         else if 65 \<le> n \<and> n \<le> 90 then n - 55
         else 36)"

definition parseInt :: "string \<Rightarrow> int option" where
  "parseInt inputString =
     (let S = dropWhile is_white_space inputString;
          sign = (if S \<noteq> [] \<and> hd S = CHR ''-'' then - 1 else (1 :: int));
          S = (if S \<noteq> [] \<and> (hd S = CHR ''+'' \<or> hd S = CHR ''-'') then tl S else S);
          hex = (take 2 S = ''0x'' \<or> take 2 S = ''0X'');
          R = (if hex then 16 else (10 :: nat));
          S = (if hex then drop 2 S else S);
          Z = takeWhile (\<lambda>c. digit_value c < R) S
      in if Z = [] then None
         else Some (sign * int (foldl (\<lambda>acc c. acc * R + digit_value c) 0 Z)))"

text \<open>
  The query parameters \<^verbatim>\<open>page\<close> and \<^verbatim>\<open>limit\<close> are texts that the arithmetic of
  the handler coerces to numbers. The model covers the decimal texts of integers and takes
  the integer for the text; \<open>None\<close> is a parameter that the request does not carry.
  On such a text the coercion of the arithmetic and \<^verbatim>\<open>parseInt\<close>, which the handler
  applies for the echo, both give the double nearest to the integer.
\<close>

type_synonym query_number = "int option"

subsection \<open>Array and string operations of the language\<close>

text \<open>
  \<^verbatim>\<open>Array.prototype.slice\<close>. An argument is first made an integer or an infinity:
  NaN counts as 0 and a finite number loses its fraction. A negative index then counts
  from the end of the array, both indices are clamped to the array, and an empty range
  gives the empty array. \<open>relative_index\<close> is the clamped index of one argument.
\<close>

definition relative_index :: "int \<Rightarrow> number \<Rightarrow> int" where
  "relative_index len n =
     (case n of
        NaN \<Rightarrow> 0
      | NegInfinity \<Rightarrow> 0
      | PosInfinity \<Rightarrow> len
      | Finite r \<Rightarrow>
          (let i = (if r < 0 then \<lceil>r\<rceil> else \<lfloor>r\<rfloor>)
           in if i < 0 then max (len + i) 0 else min i len))"

definition slice :: "'a list \<Rightarrow> number \<Rightarrow> number \<Rightarrow> 'a list" where
  "slice xs start end' =
     (let len = int (length xs);
          k = relative_index len start;
          final = relative_index len end'
      in take (nat (final - k)) (drop (nat k) xs))"

text \<open>
  \<^verbatim>\<open>toLowerCase\<close> on the letters of ASCII (other bytes are left as they are) and
  \<^verbatim>\<open>includes\<close> (here \<open>str_includes\<close>), the test for a contiguous occurrence.
\<close>

definition toLowerCase :: "string \<Rightarrow> string" where
  "toLowerCase s =
     map (\<lambda>c. let n = (of_char c :: nat)
               in if 65 \<le> n \<and> n \<le> 90 then char_of (n + 32) else c) s"

definition str_includes :: "string \<Rightarrow> string \<Rightarrow> bool" where
  "str_includes s searchString = sublist searchString s"

subsection \<open>The handlers\<close>

text \<open>
  The responses. The three filters answer with an echo of the request, the number of
  matches and the matches; their property names \<^verbatim>\<open>count\<close> and \<^verbatim>\<open>data\<close> are
  prefixed here, since one theory has one field of a name. A record of the type above
  has every property that the handlers read, so no handler throws, and the 500 responses
  of the \<^verbatim>\<open>catch\<close> blocks are not reachable in the model.
\<close>

record 'p page_response =
  total :: nat
  page :: number
  limit :: number
  data :: "'p list"

record 'p class_response =
  class_echo :: "int option"
  class_count :: nat
  class_data :: "'p list"

record 'p survived_response =
  survived_label :: string
  survived_count :: nat
  survived_data :: "'p list"

record 'p search_response =
  search :: string
  search_count :: nat
  search_data :: "'p list"

record by_class =
  class1 :: nat
  class2 :: nat
  class3 :: nat

record by_gender =
  male :: nat
  female :: nat

record summary =
  totalPassengers :: nat
  byClass :: by_class
  byGender :: by_gender

text \<open>
  \<^verbatim>\<open>GET /\<close>: one page of the list. \<open>page\<close> and \<open>limit\<close> below are the numbers
  that the texts of the query become, in the arithmetic and in the echo alike; the
  defaults are numbers already.
\<close>

definition list_passengers ::
    "'a passenger_scheme list \<Rightarrow> query_number \<Rightarrow> query_number
      \<Rightarrow> 'a passenger_scheme page_response" where
  "list_passengers passengers query_page query_limit =
     (let page = (case query_page of None \<Rightarrow> Finite 1 | Some p \<Rightarrow> to_double (of_int p));
          limit = (case query_limit of None \<Rightarrow> Finite 20 | Some l \<Rightarrow> to_double (of_int l));
          startIndex = number_mul (number_sub page (Finite 1)) limit;
          endIndex = number_mul page limit;
          passengers' = slice passengers startIndex endIndex
      in \<lparr> total = length passengers, page = page, limit = limit, data = passengers' \<rparr>)"

text \<open>
  \<^verbatim>\<open>GET /:id\<close>: \<^verbatim>\<open>find\<close> gives the first record that satisfies the test, or
  \<^verbatim>\<open>undefined\<close>, which is the only falsy result, a record being an object.
\<close>

definition get_passenger ::
    "'a passenger_scheme list \<Rightarrow> string \<Rightarrow> http_error + 'a passenger_scheme" where
  "get_passenger passengers id_param =
     (case find (\<lambda>p. Some (PassengerId p) = parseInt id_param) passengers of
        None \<Rightarrow> Inl (404, ''Pasajero no encontrado'')
      | Some passenger \<Rightarrow> Inr passenger)"

text \<open>\<^verbatim>\<open>GET /class/:class\<close>.\<close>

definition filter_by_class ::
    "'a passenger_scheme list \<Rightarrow> string \<Rightarrow> 'a passenger_scheme class_response" where
  "filter_by_class passengers class_param =
     (let pclass = parseInt class_param;
          passengers' = filter (\<lambda>p. Some (Pclass p) = pclass) passengers
      in \<lparr> class_echo = pclass, class_count = length passengers', class_data = passengers' \<rparr>)"

text \<open>\<^verbatim>\<open>GET /survived/:status\<close>.\<close>

definition filter_by_survived ::
    "'a passenger_scheme list \<Rightarrow> string \<Rightarrow> 'a passenger_scheme survived_response" where
  "filter_by_survived passengers status =
     (let survived = parseInt status;
          passengers' = filter (\<lambda>p. Some (Survived p) = survived) passengers
      in \<lparr> survived_label = (if survived = Some 1
                               then ''Sobrevivi'' @ [CHR 0xC3, CHR 0xB3]
                               else ''No sobrevivi'' @ [CHR 0xC3, CHR 0xB3]),
           survived_count = length passengers',
           survived_data = passengers' \<rparr>)"

text \<open>\<^verbatim>\<open>GET /search/:name\<close>.\<close>

definition search_by_name ::
    "'a passenger_scheme list \<Rightarrow> string \<Rightarrow> 'a passenger_scheme search_response" where
  "search_by_name passengers name =
     (let searchTerm = toLowerCase name;
          passengers' = filter (\<lambda>p. str_includes (toLowerCase (Name p)) searchTerm) passengers
      in \<lparr> search = searchTerm, search_count = length passengers', search_data = passengers' \<rparr>)"

text \<open>
  \<^verbatim>\<open>GET /stats/summary\<close>: the counts of the response. Its \<^verbatim>\<open>survivalRate\<close>, a
  formatted floating-point text, is not part of the model.
\<close>

definition stats_summary :: "'a passenger_scheme list \<Rightarrow> summary" where
  "stats_summary passengers =
     (let total = length passengers;
          byClass = \<lparr> class1 = length (filter (\<lambda>p. Pclass p = 1) passengers),
                      class2 = length (filter (\<lambda>p. Pclass p = 2) passengers),
                      class3 = length (filter (\<lambda>p. Pclass p = 3) passengers) \<rparr>;
          byGender = \<lparr> male = length (filter (\<lambda>p. Sex p = ''male'') passengers),
                       female = length (filter (\<lambda>p. Sex p = ''female'') passengers) \<rparr>
      in \<lparr> totalPassengers = total, byClass = byClass, byGender = byGender \<rparr>)"

section \<open>The behaviour that is specified\<close>

subsection \<open>The scoring rules, one adjustment per attribute\<close>

text \<open>
  The specification words the score as a sum of six independent adjustments of the
  attribute values. These definitions follow its words; they are compared with the
  accumulator of \<open>predictSurvival\<close> below. The family size is the sum of the two
  counts as the language adds them.
\<close>

definition sex_adjustment :: "string \<Rightarrow> int" where
  "sex_adjustment s = (if s = ''female'' then 3 else if s = ''male'' then - 1 else 0)"

definition class_adjustment :: "real \<Rightarrow> int" where
  "class_adjustment c = (if c = 1 then 2 else if c = 2 then 1 else if c = 3 then - 1 else 0)"

definition age_adjustment :: "real \<Rightarrow> int" where
  "age_adjustment a = (if a \<le> 12 then 2 else if a \<le> 25 then 1 else if a > 60 then - 1 else 0)"

definition family_adjustment :: "real \<Rightarrow> real \<Rightarrow> int" where
  "family_adjustment sb pc =
     (let familySize = number_add (Finite sb) (Finite pc)
      in if familySize = Finite 1 \<or> familySize = Finite 2 then 1
         else if js_gt familySize 4 then - 1 else 0)"

definition fare_adjustment :: "real \<Rightarrow> int" where
  "fare_adjustment f = (if f > 50 then 2 else if f > 20 then 1 else 0)"

definition port_adjustment :: "string \<Rightarrow> int" where
  "port_adjustment e = (if e = ''C'' then 1 else 0)"

text \<open>
  The part of the score that each group of statements of \<open>predictSurvival\<close> adds, on
  properties that may be absent or \<^verbatim>\<open>null\<close>.
\<close>

definition sex_part :: "string field \<Rightarrow> int" where
  "sex_part s = (if s = Val ''female'' then 3 else 0) + (if s = Val ''male'' then - 1 else 0)"

definition class_part :: "real field \<Rightarrow> int" where
  "class_part c = (if c = Val 1 then 2 else 0) + (if c = Val 2 then 1 else 0)
                  + (if c = Val 3 then - 1 else 0)"

definition age_part :: "real field \<Rightarrow> int" where
  "age_part a = (if js_le (ToNumber a) 12 then 2 else if js_le (ToNumber a) 25 then 1
                 else if js_gt (ToNumber a) 60 then - 1 else 0)"

definition family_part :: "real field \<Rightarrow> real field \<Rightarrow> int" where
  "family_part sb pc = (if js_add sb pc = Finite 1 \<or> js_add sb pc = Finite 2 then 1 else 0)
                       + (if js_gt (js_add sb pc) 4 then - 1 else 0)"

definition fare_part :: "real field \<Rightarrow> int" where
  "fare_part f = (if js_gt (ToNumber f) 50 then 2 else if js_gt (ToNumber f) 20 then 1 else 0)"

definition port_part :: "string field \<Rightarrow> int" where
  "port_part e = (if e = Val ''C'' then 1 else 0)"

subsection \<open>The required fields that a body lacks\<close>

text \<open>
  A property is missing when it is absent or \<^verbatim>\<open>null\<close>. \<open>missing_fields\<close> lists the
  names of the missing properties in the fixed order of the check; its head, if there is
  one, is the first missing field.
\<close>

definition nullish :: "'a field \<Rightarrow> bool" where
  "nullish v = (v = Undefined \<or> v = Null)"

definition missing_fields :: "'a passengerData_scheme \<Rightarrow> string list" where
  "missing_fields body =
     (if nullish (pclass body) then [''pclass''] else [])
     @ (if nullish (sex body) then [''sex''] else [])
     @ (if nullish (age body) then [''age''] else [])
     @ (if nullish (sibsp body) then [''sibsp''] else [])
     @ (if nullish (parch body) then [''parch''] else [])
     @ (if nullish (fare body) then [''fare''] else [])
     @ (if nullish (embarked body) then [''embarked''] else [])"

subsection \<open>Pages as ranges of positions\<close>

text \<open>
  The specification words a page as the contiguous slice \<open>[a, b)\<close> of the list: the
  records at the positions \<open>i\<close> with \<open>a \<le> i < b\<close>, in the order of the list.
\<close>

definition index_slice :: "'a list \<Rightarrow> int \<Rightarrow> int \<Rightarrow> 'a list" where
  "index_slice xs a b = map (\<lambda>i. xs ! i) (filter (\<lambda>i. a \<le> int i \<and> int i < b) [0..<length xs])"

subsection \<open>The decimal text of an identifier\<close>

text \<open>
  The text that a client puts into the path to ask for an identifier: its decimal digits,
  after a minus sign if it is negative. It is used to show that \<open>parseInt\<close> reaches
  every integer.
\<close>

definition digit_char :: "nat \<Rightarrow> char" where
  "digit_char d = char_of (48 + d)"

fun decimal :: "nat \<Rightarrow> string" where
  "decimal n = (if n < 10 then [digit_char n] else decimal (n div 10) @ [digit_char (n mod 10)])"

definition int_text :: "int \<Rightarrow> string" where
  "int_text i = (if i < 0 then CHR ''-'' # decimal (nat (- i)) else decimal (nat i))"

definition digits :: "string \<Rightarrow> bool" where
  "digits S = (\<forall>c\<in>set S. \<exists>d<10. c = digit_char d)"

subsection \<open>Sample data\<close>

text \<open>
  Three records in the shape of the data file, for the instances of the theorems on the
  passenger service.
\<close>

definition sample_passengers :: "passenger list" where
  "sample_passengers =
     [\<lparr> PassengerId = 1, Pclass = 3, Survived = 0, Name = ''Braund, Mr. Owen Harris'',
         Sex = ''male'' \<rparr>,
      \<lparr> PassengerId = 2, Pclass = 1, Survived = 1, Name = ''Cumings, Mrs. John Bradley'',
         Sex = ''female'' \<rparr>,
      \<lparr> PassengerId = 3, Pclass = 3, Survived = 1, Name = ''Heikkinen, Miss. Laina'',
         Sex = ''female'' \<rparr>]"

section \<open>Properties of the rounding\<close>

lemma to_double_nonzero:
  "x \<noteq> 0 \<Longrightarrow> max \<lfloor>log 2 \<bar>x\<bar>\<rfloor> (- 1022) = e \<Longrightarrow>
   to_double x = overflow (of_int (round_half_even (x / 2 powi (e - 52))) * 2 powi (e - 52))"
  by (simp add: to_double_def Let_def)

lemma round_half_even_int [simp]: "round_half_even (of_int k) = k"
  by (simp add: round_half_even_def)

lemma round_half_even_ge_floor: "\<lfloor>y\<rfloor> \<le> round_half_even y"
  by (simp add: round_half_even_def Let_def)

text \<open>The exponent of a number between two consecutive powers of two.\<close>

lemma floor_log2_eq:
  assumes "2 powi e \<le> \<bar>x\<bar>" and "\<bar>x\<bar> < 2 powi (e + 1)"
  shows "\<lfloor>log 2 \<bar>x\<bar>\<rfloor> = e"
proof -
  have p: "0 < \<bar>x\<bar>" using assms(1) zero_less_power_int [of "2::real" e] by linarith
  have "(2::real) powr (of_int e) = 2 powi e" by (simp add: powr_real_of_int')
  moreover have "(2::real) powr (of_int e + 1) = 2 powi (e + 1)"
    using powr_real_of_int' [of "2::real" "e + 1"] by simp
  ultimately show ?thesis
    using assms floor_log_eq_powr_iff [of "\<bar>x\<bar>" 2 e] p by simp
qed

lemma to_double_exponent:
  assumes "2 powi e \<le> \<bar>x\<bar>" and "\<bar>x\<bar> < 2 powi (e + 1)" and "- 1022 \<le> e"
  shows "to_double x = overflow (of_int (round_half_even (x / 2 powi (e - 52))) * 2 powi (e - 52))"
proof -
  have "(0::real) < 2 powi e" by simp
  with assms(1) have "0 < \<bar>x\<bar>" by linarith
  then have "x \<noteq> 0" by simp
  moreover have "max \<lfloor>log 2 \<bar>x\<bar>\<rfloor> (- 1022) = e"
    using floor_log2_eq [OF assms(1,2)] assms(3) by simp
  ultimately show ?thesis by (rule to_double_nonzero)
qed


text \<open>An integer of magnitude below \<open>2 ^ 53\<close> is a double.\<close>

lemma to_double_int:
  assumes "\<bar>m\<bar> < 2 ^ 53"
  shows "to_double (of_int m) = Finite (of_int m)"
proof (cases "m = 0")
  case True
  then show ?thesis by (simp add: to_double_def)
next
  case False
  define a :: real where "a = \<bar>of_int m\<bar>"
  define e where "e = \<lfloor>log 2 a\<rfloor>"
  have a1: "1 \<le> a" using False by (simp add: a_def)
  have "\<bar>real_of_int m\<bar> < 2 ^ 53"
    using assms by (metis of_int_abs of_int_less_numeral_power_cancel_iff)
  then have a2: "a < 2 ^ 53" by (simp add: a_def)
  have "0 \<le> log 2 a" using a1 by simp
  then have e0: "0 \<le> e" by (simp add: e_def)
  have "log 2 a < 53" using a1 a2 by (simp add: log_less_iff)
  then have e1: "e \<le> 52" unfolding e_def by linarith
  define k where "k = nat (52 - e)"
  have ulp: "(2::real) powi (e - 52) = 1 / 2 ^ k"
    using e1 by (simp add: power_int_def k_def field_simps)
  have q: "real_of_int m / (1 / 2 ^ k) = of_int (m * 2 ^ k)" by simp
  have r: "of_int (round_half_even (real_of_int m / (1 / 2 ^ k))) * (1 / 2 ^ k) = real_of_int m"
    unfolding q round_half_even_int by simp
  have b: "\<not> 2 ^ 1024 \<le> real_of_int m" "\<not> real_of_int m \<le> - (2 ^ 1024)"
    using \<open>\<bar>real_of_int m\<bar> < 2 ^ 53\<close> by (auto simp: abs_less_iff)
  have m: "max \<lfloor>log 2 \<bar>real_of_int m\<bar>\<rfloor> (- 1022) = e"
    using e0 by (simp only: e_def a_def)
  have nz: "real_of_int m \<noteq> 0" using False by simp
  have "to_double (of_int m) = overflow (real_of_int m)"
    by (simp only: to_double_nonzero [OF nz m] ulp r)
  also have "\<dots> = Finite (real_of_int m)"
    using b by (simp only: overflow_def if_False)
  finally show ?thesis .
qed

text \<open>Rounding does not take a number from \<open>2 ^ 52\<close> on below \<open>2 ^ 52\<close>.\<close>

lemma to_double_large:
  assumes "2 ^ 52 \<le> x"
  shows "to_double x = PosInfinity \<or> (\<exists>r. to_double x = Finite r \<and> 2 ^ 52 \<le> r)"
proof -
  have x0: "0 < x" using assms by (smt (verit) zero_less_power)
  define e where "e = \<lfloor>log 2 \<bar>x\<bar>\<rfloor>"
  have "52 \<le> log 2 x" using assms x0 by (simp add: le_log_iff)
  then have e52: "52 \<le> e" using x0 unfolding e_def by (simp add: le_floor_iff)
  have "of_int e \<le> log 2 x" using x0 unfolding e_def by simp
  then have "2 powr (of_int e) \<le> x" using x0 by (simp add: le_log_iff)
  then have ex: "2 powi e \<le> x" by (simp add: powr_real_of_int')
  define ulp :: real where "ulp = 2 powi (e - 52)"
  have u0: "0 < ulp" by (simp add: ulp_def)
  have u1: "1 \<le> ulp" using e52 by (simp add: ulp_def)
  have "2 powi e = 2 ^ 52 * ulp"
    by (simp add: ulp_def power_int_diff)
  then have "2 ^ 52 \<le> x / ulp" using ex u0 by (simp add: pos_le_divide_eq)
  then have "(2::int) ^ 52 \<le> \<lfloor>x / ulp\<rfloor>" by (simp add: le_floor_iff)
  then have "(2::int) ^ 52 \<le> round_half_even (x / ulp)"
    using round_half_even_ge_floor [of "x / ulp"] by linarith
  then have "(2::real) ^ 52 \<le> of_int (round_half_even (x / ulp))"
    by (metis of_int_le_iff of_int_numeral of_int_power)
  then have "2 ^ 52 * 1 \<le> of_int (round_half_even (x / ulp)) * ulp"
    using u1 by (intro mult_mono) simp_all
  then have r: "2 ^ 52 \<le> of_int (round_half_even (x / ulp)) * ulp" by simp
  have m: "max \<lfloor>log 2 \<bar>x\<bar>\<rfloor> (- 1022) = e"
    using e52 by (simp only: e_def)
  have nz: "x \<noteq> 0" using x0 by simp
  have "to_double x = overflow (of_int (round_half_even (x / ulp)) * ulp)"
    by (simp only: to_double_nonzero [OF nz m] ulp_def)
  then show ?thesis
    using r by (auto simp: overflow_def)
qed

lemma js_le_Finite [simp]: "js_le (Finite r) k = (r \<le> k)"
  by (simp add: js_le_def)

lemma js_gt_Finite [simp]: "js_gt (Finite r) k = (k < r)"
  by (simp add: js_gt_def)

lemma ceiling_minus_1 [simp]: "\<lceil>- 1 :: real\<rceil> = - 1"
  by (rule ceiling_unique) simp_all

lemma to_double_0 [simp]: "to_double 0 = Finite 0"
  by (simp add: to_double_def)

lemma to_double_1 [simp]: "to_double 1 = Finite 1"
  using to_double_int [of 1] by simp

lemma to_double_numeral [simp]:
  "(numeral n :: int) < 2 ^ 53 \<Longrightarrow> to_double (numeral n) = Finite (numeral n)"
  using to_double_int [of "numeral n"] by simp

lemma to_double_neg_1 [simp]: "to_double (- 1) = Finite (- 1)"
  using to_double_int [of "- 1"] by simp

lemma to_double_neg_numeral [simp]:
  "(numeral n :: int) < 2 ^ 53 \<Longrightarrow> to_double (- numeral n) = Finite (- numeral n)"
  using to_double_int [of "- numeral n"] by simp

lemma is_double_0 [simp]: "is_double 0"
  by (simp add: is_double_def)

lemma is_double_1 [simp]: "is_double 1"
  by (simp add: is_double_def)

lemma is_double_numeral [simp]: "(numeral n :: int) < 2 ^ 53 \<Longrightarrow> is_double (numeral n)"
  by (simp add: is_double_def)

lemma is_double_tiny: "is_double (1 / 2 ^ 60)"
  unfolding is_double_def
  using to_double_exponent [of "- 60" "1 / 2 ^ 60"]
  by (simp add: round_half_even_def Let_def overflow_def)

text \<open>
  Two roundings: a sum next to 1 whose exact value is no double, and the first integer
  that is no double, halfway between its neighbours.
\<close>

lemma number_add_rounds: "number_add (Finite 1) (Finite (1 / 2 ^ 60)) = Finite 1"
  using to_double_exponent [of 0 "1 + 1 / 2 ^ 60"]
  by (simp add: round_half_even_def Let_def overflow_def)

lemma number_add_rounds_4: "number_add (Finite 4) (Finite (1 / 2 ^ 60)) = Finite 4"
  using to_double_exponent [of 2 "4 + 1 / 2 ^ 60"]
  by (simp add: round_half_even_def Let_def overflow_def)

lemma to_double_first_unsafe: "to_double 9007199254740993 = Finite 9007199254740992"
  using to_double_exponent [of 53 "9007199254740993"]
  by (simp add: round_half_even_def Let_def overflow_def)

section \<open>Properties of the scoring service\<close>

subsection \<open>The score as a sum\<close>

lemmas js_ops = ToNumber_def js_le_def js_gt_def js_add_def

lemmas adjustments = sex_adjustment_def class_adjustment_def age_adjustment_def
  family_adjustment_def fare_adjustment_def port_adjustment_def

lemma if_add_both: "(if c then (x::int) + a else x + b) = x + (if c then a else b)"
  by simp

lemma if_add: "(if c then (x::int) + k else x) = x + (if c then k else 0)"
  by simp

lemma if_sub: "(if c then (x::int) - k else x) = x + (if c then - k else 0)"
  by simp

text \<open>
  The chain of updates of the accumulator adds up the parts. The case distinctions are
  never split: each update is rewritten to an addition.
\<close>

lemma score_parts:
  "score (predictSurvival pd) =
     sex_part (sex pd) + class_part (pclass pd) + age_part (age pd)
     + family_part (sibsp pd) (parch pd) + fare_part (fare pd) + port_part (embarked pd)"
  unfolding predictSurvival_def Let_def sex_part_def class_part_def age_part_def
    family_part_def fare_part_def port_part_def
  apply (simp only: prediction.simps)
  apply (simp only: if_add_both if_add if_sub)
  done

lemma survived_def_score:
  "survived (predictSurvival pd) =
     (1 / (1 + exp (- real_of_int (score (predictSurvival pd)) * 0.3)) > 0.5)"
  unfolding predictSurvival_def Let_def by (simp only: prediction.simps)

lemma probability_def_score:
  "probability (predictSurvival pd) =
     1 / (1 + exp (- real_of_int (score (predictSurvival pd)) * 0.3))"
  unfolding predictSurvival_def Let_def by (simp only: prediction.simps)

lemma sex_part_Val: "sex_part (Val s) = sex_adjustment s"
  by (simp add: sex_part_def sex_adjustment_def)

lemma class_part_Val: "class_part (Val c) = class_adjustment c"
  by (simp add: class_part_def class_adjustment_def)

lemma age_part_Val: "age_part (Val a) = age_adjustment a"
  by (simp add: age_part_def age_adjustment_def js_ops)

lemma family_part_Val: "family_part (Val sb) (Val pc) = family_adjustment sb pc"
  by (simp add: family_part_def family_adjustment_def js_ops)

lemma fare_part_Val: "fare_part (Val f) = fare_adjustment f"
  by (simp add: fare_part_def fare_adjustment_def js_ops)

lemma port_part_Val: "port_part (Val e) = port_adjustment e"
  by (simp add: port_part_def port_adjustment_def)

lemmas parts_Val = sex_part_Val class_part_Val age_part_Val family_part_Val fare_part_Val
  port_part_Val

lemma score_Val:
  "score (predictSurvival \<lparr> pclass = Val c, sex = Val s, age = Val a, sibsp = Val sb,
      parch = Val pc, fare = Val f, embarked = Val e, \<dots> = ext \<rparr>)
   = sex_adjustment s + class_adjustment c + age_adjustment a
       + family_adjustment sb pc + fare_adjustment f + port_adjustment e"
  by (simp only: score_parts passengerData.simps parts_Val)

text \<open>
  Claim C1. For every scoring input that carries all seven fields, the score that
  \<open>predictSurvival\<close> returns is the sum, starting from 0, of the adjustment for the sex
  (female 3, male -1, otherwise 0), for the class (1: 2, 2: 1, 3: -1), for the age (at
  most 12: 2, else at most 25: 1, else above 60: -1, else 0), for the family size, the
  sum of sibsp and parch as the language adds them (1 or 2: 1, above 4: -1, otherwise 0),
  for the fare (above 50: 2, else above 20: 1, else 0) and for the port (C: 1, otherwise
  0). The numbers of the input are doubles. Further properties of the input (\<open>ext\<close>)
  change nothing.
\<close>

theorem score_is_sum:
  assumes "is_double c" and "is_double a" and "is_double sb" and "is_double pc"
    and "is_double f"
  shows "score (predictSurvival \<lparr> pclass = Val c, sex = Val s, age = Val a, sibsp = Val sb,
      parch = Val pc, fare = Val f, embarked = Val e, \<dots> = ext \<rparr>)
   = 0 + sex_adjustment s + class_adjustment c + age_adjustment a
       + family_adjustment sb pc + fare_adjustment f + port_adjustment e"
  by (simp only: score_Val add_0)

text \<open>
  Two instances: the sixth record of the sample data of the source, and an input whose
  family size rounds to 1, so that the adjustment for a small family applies.
\<close>

theorem score_is_sum_witness:
  "score (predictSurvival \<lparr> pclass = Val 3, sex = Val ''male'', age = Val 34, sibsp = Val 0,
      parch = Val 0, fare = Val 13, embarked = Val ''S'' \<rparr>) = - 2
   \<and> score (predictSurvival \<lparr> pclass = Val 3, sex = Val ''male'', age = Val 40, sibsp = Val 1,
      parch = Val (1 / 2 ^ 60), fare = Val 0, embarked = Val ''S'' \<rparr>) = - 1"
proof
  show "score (predictSurvival \<lparr> pclass = Val 3, sex = Val ''male'', age = Val 34,
      sibsp = Val 0, parch = Val 0, fare = Val 13, embarked = Val ''S'' \<rparr>) = - 2"
    using score_is_sum [where c = 3 and s = "''male''" and a = 34 and sb = 0 and pc = 0
      and f = 13 and e = "''S''" and ext = "()"]
    by (simp add: adjustments)
  have f: "family_adjustment 1 (1 / 2 ^ 60) = 1"
    by (simp only: family_adjustment_def Let_def number_add_rounds) simp
  have d: "is_double 3" "is_double 40" "is_double 1" "is_double 0" by simp_all
  show "score (predictSurvival \<lparr> pclass = Val 3, sex = Val ''male'', age = Val 40,
      sibsp = Val 1, parch = Val (1 / 2 ^ 60), fare = Val 0, embarked = Val ''S'' \<rparr>) = - 1"
    using f score_is_sum [OF d(1) d(2) d(3) is_double_tiny d(4), where s = "''male''"
      and e = "''S''" and ext = "()"]
    by (simp add: sex_adjustment_def class_adjustment_def age_adjustment_def
        fare_adjustment_def port_adjustment_def)
qed

subsection \<open>The range of the score\<close>

lemma sex_part_bounds: "- 1 \<le> sex_part s \<and> sex_part s \<le> 3"
  by (simp add: sex_part_def)

lemma class_part_bounds: "- 1 \<le> class_part c \<and> class_part c \<le> 2"
  by (simp add: class_part_def)

lemma age_part_bounds: "- 1 \<le> age_part a \<and> age_part a \<le> 2"
  by (simp add: age_part_def)

lemma family_part_bounds: "- 1 \<le> family_part sb pc \<and> family_part sb pc \<le> 1"
  by (simp add: family_part_def)

lemma fare_part_bounds: "0 \<le> fare_part f \<and> fare_part f \<le> 2"
  by (simp add: fare_part_def)

lemma port_part_bounds: "0 \<le> port_part e \<and> port_part e \<le> 1"
  by (simp add: port_part_def)

text \<open>The bounds hold for every input, also one with absent or \<^verbatim>\<open>null\<close> properties.\<close>

lemma score_range: "- 4 \<le> score (predictSurvival pd) \<and> score (predictSurvival pd) \<le> 11"
  using sex_part_bounds [of "sex pd"] class_part_bounds [of "pclass pd"]
    age_part_bounds [of "age pd"] family_part_bounds [of "sibsp pd" "parch pd"]
    fare_part_bounds [of "fare pd"] port_part_bounds [of "embarked pd"]
  unfolding score_parts by linarith

text \<open>
  Claim C10. For every scoring input with all seven fields, the score lies between -4
  and 11 (the first line of the theorem; the bounds need nothing of the numbers). The minimum is the score of every male passenger of class 3 older than 60, with
  a family size above 4, a fare of at most 20 and a port other than C; the maximum is
  the score of every female passenger of class 1 of at most 12 years, with a family size
  of 1 or 2, a fare above 50 and port C. The numbers of these inputs are doubles, and
  the family size is the sum of the two counts as the language adds them.
\<close>

theorem score_bounds:
  "- 4 \<le> score (predictSurvival \<lparr> pclass = Val c, sex = Val s, age = Val a, sibsp = Val sb,
      parch = Val pc, fare = Val f, embarked = Val e, \<dots> = ext \<rparr>)
   \<and> score (predictSurvival \<lparr> pclass = Val c, sex = Val s, age = Val a, sibsp = Val sb,
      parch = Val pc, fare = Val f, embarked = Val e, \<dots> = ext \<rparr>) \<le> 11
   \<and> (is_double a \<and> is_double sb \<and> is_double pc \<and> is_double f
        \<and> 60 < a \<and> js_gt (number_add (Finite sb) (Finite pc)) 4 \<and> f \<le> 20 \<and> e \<noteq> ''C'' \<longrightarrow>
        score (predictSurvival \<lparr> pclass = Val 3, sex = Val ''male'', age = Val a,
          sibsp = Val sb, parch = Val pc, fare = Val f, embarked = Val e, \<dots> = ext \<rparr>) = - 4)
   \<and> (is_double a \<and> is_double sb \<and> is_double pc \<and> is_double f
        \<and> a \<le> 12
        \<and> (number_add (Finite sb) (Finite pc) = Finite 1
           \<or> number_add (Finite sb) (Finite pc) = Finite 2)
        \<and> 50 < f \<longrightarrow>
        score (predictSurvival \<lparr> pclass = Val 1, sex = Val ''female'', age = Val a,
          sibsp = Val sb, parch = Val pc, fare = Val f, embarked = Val ''C'', \<dots> = ext \<rparr>) = 11)"
proof (intro conjI impI)
  show "- 4 \<le> score (predictSurvival \<lparr> pclass = Val c, sex = Val s, age = Val a,
      sibsp = Val sb, parch = Val pc, fare = Val f, embarked = Val e, \<dots> = ext \<rparr>)"
    using score_range by blast
  show "score (predictSurvival \<lparr> pclass = Val c, sex = Val s, age = Val a, sibsp = Val sb,
      parch = Val pc, fare = Val f, embarked = Val e, \<dots> = ext \<rparr>) \<le> 11"
    using score_range by blast
next
  assume m: "is_double a \<and> is_double sb \<and> is_double pc \<and> is_double f
        \<and> 60 < a \<and> js_gt (number_add (Finite sb) (Finite pc)) 4 \<and> f \<le> 20 \<and> e \<noteq> ''C''"
  then have "number_add (Finite sb) (Finite pc) \<noteq> Finite 1"
    and "number_add (Finite sb) (Finite pc) \<noteq> Finite 2"
    by auto
  with m show "score (predictSurvival \<lparr> pclass = Val 3, sex = Val ''male'', age = Val a,
          sibsp = Val sb, parch = Val pc, fare = Val f, embarked = Val e, \<dots> = ext \<rparr>) = - 4"
    unfolding score_Val by (simp add: adjustments del: number_add.simps)
next
  assume "is_double a \<and> is_double sb \<and> is_double pc \<and> is_double f
        \<and> a \<le> 12
        \<and> (number_add (Finite sb) (Finite pc) = Finite 1
           \<or> number_add (Finite sb) (Finite pc) = Finite 2)
        \<and> 50 < f"
  then show "score (predictSurvival \<lparr> pclass = Val 1, sex = Val ''female'', age = Val a,
          sibsp = Val sb, parch = Val pc, fare = Val f, embarked = Val ''C'', \<dots> = ext \<rparr>) = 11"
    unfolding score_Val by (auto simp add: adjustments simp del: number_add.simps)
qed

text \<open>Both extremes are reached: an instance of each.\<close>

theorem score_bounds_witness:
  "score (predictSurvival \<lparr> pclass = Val 3, sex = Val ''male'', age = Val 70, sibsp = Val 4,
      parch = Val 2, fare = Val 8, embarked = Val ''S'' \<rparr>) = - 4
   \<and> score (predictSurvival \<lparr> pclass = Val 1, sex = Val ''female'', age = Val 2, sibsp = Val 1,
      parch = Val 1, fare = Val 151, embarked = Val ''C'' \<rparr>) = 11"
  using score_bounds [where a = 70 and sb = 4 and pc = 2 and f = 8 and e = "''S''"
      and ext = "()"]
    score_bounds [where a = 2 and sb = 1 and pc = 1 and f = 151 and ext = "()"]
  by simp

text \<open>
  A family size that rounds to 4 is not above 4: the score of this input is -3, not the
  minimum.
\<close>

lemma score_family_size_4:
  "score (predictSurvival \<lparr> pclass = Val 3, sex = Val ''male'', age = Val 70, sibsp = Val 4,
      parch = Val (1 / 2 ^ 60), fare = Val 0, embarked = Val ''S'' \<rparr>) = - 3"
proof -
  have f: "family_adjustment 4 (1 / 2 ^ 60) = 0"
    by (simp only: family_adjustment_def Let_def number_add_rounds_4) simp
  show ?thesis
    unfolding score_Val using f
    by (simp add: sex_adjustment_def class_adjustment_def age_adjustment_def
        fare_adjustment_def port_adjustment_def)
qed

subsection \<open>The outcome and the sign of the score\<close>

text \<open>\<^verbatim>\<open>Math.exp\<close> is the real exponential function in the model.\<close>

lemma logistic_gt_half: "(1 / (1 + exp (- real_of_int s * 0.3)) > 0.5) = (0 < s)"
proof -
  have "(1 / (1 + exp (- real_of_int s * 0.3)) > 1/2) = (exp (- real_of_int s * 0.3) < 1)"
    by (simp add: field_simps add_pos_pos)
  also have "\<dots> = (0 < s)" by simp
  finally show ?thesis by simp
qed

text \<open>
  Claim C9. For every scoring input, the outcome \<open>survived\<close> is true exactly when the
  score is greater than 0: the probability is the logistic transform of \<open>0.3\<close> times the
  score, which exceeds \<open>0.5\<close> exactly when the score is positive; a score of 0 gives the
  probability \<open>0.5\<close> exactly and the outcome false.
\<close>

theorem survived_iff_score_positive:
  "survived (predictSurvival pd) = (0 < score (predictSurvival pd))
   \<and> probability (predictSurvival pd)
       = 1 / (1 + exp (- real_of_int (score (predictSurvival pd)) * 0.3))
   \<and> (0.5 < probability (predictSurvival pd)) = (0 < score (predictSurvival pd))
   \<and> (score (predictSurvival pd) = 0 \<longrightarrow>
        probability (predictSurvival pd) = 0.5 \<and> \<not> survived (predictSurvival pd))"
proof (intro conjI impI)
  show s: "survived (predictSurvival pd) = (0 < score (predictSurvival pd))"
    by (simp only: survived_def_score logistic_gt_half)
  show "probability (predictSurvival pd)
       = 1 / (1 + exp (- real_of_int (score (predictSurvival pd)) * 0.3))"
    by (rule probability_def_score)
  show "(0.5 < probability (predictSurvival pd)) = (0 < score (predictSurvival pd))"
    by (simp only: probability_def_score logistic_gt_half)
  assume z: "score (predictSurvival pd) = 0"
  show "probability (predictSurvival pd) = 0.5"
    by (simp add: probability_def_score z)
  show "\<not> survived (predictSurvival pd)"
    by (simp add: s z)
qed

text \<open>An input of score 0: the eighth record of the sample data of the source.\<close>

theorem survived_iff_score_positive_witness:
  "score (predictSurvival \<lparr> pclass = Val 2, sex = Val ''male'', age = Val 28, sibsp = Val 0,
      parch = Val 0, fare = Val 13, embarked = Val ''S'' \<rparr>) = 0
   \<and> probability (predictSurvival \<lparr> pclass = Val 2, sex = Val ''male'', age = Val 28,
      sibsp = Val 0, parch = Val 0, fare = Val 13, embarked = Val ''S'' \<rparr>) = 0.5
   \<and> \<not> survived (predictSurvival \<lparr> pclass = Val 2, sex = Val ''male'', age = Val 28,
      sibsp = Val 0, parch = Val 0, fare = Val 13, embarked = Val ''S'' \<rparr>)"
proof -
  have z: "score (predictSurvival \<lparr> pclass = Val 2, sex = Val ''male'', age = Val 28,
      sibsp = Val 0, parch = Val 0, fare = Val 13, embarked = Val ''S'' \<rparr>) = 0"
    by (simp add: score_Val adjustments)
  show ?thesis
    using z survived_iff_score_positive [of "\<lparr> pclass = Val 2, sex = Val ''male'',
      age = Val 28, sibsp = Val 0, parch = Val 0, fare = Val 13, embarked = Val ''S'' \<rparr>"]
    by blast
qed

subsection \<open>The fixture of the specification\<close>

text \<open>
  Bounds of the exponential function from its Taylor polynomial of degree 7 at
  \<open>- 0.3\<close>, raised to the seventh power.
\<close>

lemma exp_m03_bounds:
  "7408182 / 10000000 \<le> exp (- (3/10) :: real) \<and> exp (- (3/10) :: real) \<le> 7408183 / 10000000"
proof -
  obtain t :: real where t: "\<bar>t\<bar> \<le> \<bar>- (3/10)\<bar>"
    and e: "exp (- (3/10)) = (\<Sum>m<8. ((- (3/10)) ^ m) / fact m) + (exp t / fact 8) * (- (3/10)) ^ 8"
    using Maclaurin_exp_le [of "- (3/10)" 8] by blast
  have s: "(\<Sum>m<8. ((- (3/10 :: real)) ^ m) / fact m) = 4148582027 / 5600000000"
    by (simp add: eval_nat_numeral)
  have "t \<le> 1/2" using t by simp
  then have "exp t \<le> exp (1/2)" by simp
  then have u: "exp t \<le> 2" using exp_half_le2 by linarith
  have l: "0 \<le> exp t" by simp
  have r: "(exp t / fact 8) * (- (3/10)) ^ 8 = exp t * (729 / 448000000000)"
    by (simp add: eval_nat_numeral)
  show ?thesis
    unfolding e s r using u l by linarith
qed

lemma exp_m21_bounds:
  "122456 / 1000000 \<le> exp (- (21/10) :: real) \<and> exp (- (21/10) :: real) \<le> 122457 / 1000000"
proof -
  have "exp (- (21/10) :: real) = exp (of_nat 7 * (- (3/10)))" by simp
  also have "\<dots> = exp (- (3/10)) ^ 7" by (rule exp_of_nat_mult)
  finally have e: "exp (- (21/10) :: real) = exp (- (3/10)) ^ 7" .
  have lo: "(7408182 / 10000000 :: real) ^ 7 \<le> exp (- (3/10)) ^ 7"
    using exp_m03_bounds by (intro power_mono) simp_all
  have hi: "exp (- (3/10) :: real) ^ 7 \<le> (7408183 / 10000000) ^ 7"
    using exp_m03_bounds by (intro power_mono) simp_all
  have a: "(122456 / 1000000 :: real) \<le> (7408182 / 10000000) ^ 7" by (simp add: power_divide)
  have b: "(7408183 / 10000000 :: real) ^ 7 \<le> 122457 / 1000000" by (simp add: power_divide)
  show ?thesis unfolding e using lo hi a b by linarith
qed

lemma logistic_21:
  "\<bar>1 / (1 + exp (- (21/10) :: real)) - 8909 / 10000\<bar> < 1 / 100000"
proof -
  have p: "0 < 1 + exp (- (21/10) :: real)" by (simp add: add_pos_pos)
  have "1 / (1 + 122457 / 1000000) \<le> 1 / (1 + exp (- (21/10) :: real))"
    using exp_m21_bounds by (intro divide_left_mono) (simp_all add: add_pos_pos)
  moreover have "1 / (1 + exp (- (21/10) :: real)) \<le> 1 / (1 + 122456 / 1000000)"
    using exp_m21_bounds by (intro divide_left_mono) (simp_all add: add_pos_pos)
  ultimately show ?thesis by simp
qed

text \<open>
  The outcome does not hinge on the rounding of the floating-point arithmetic of the
  source: for a score other than 0, the probability is at least \<open>0.07\<close> away from the
  threshold.
\<close>

lemma logistic_margin:
  "(0 < s \<longrightarrow> 57 / 100 \<le> 1 / (1 + exp (- real_of_int s * 0.3)))
   \<and> (s < 0 \<longrightarrow> 1 / (1 + exp (- real_of_int s * 0.3)) \<le> 43 / 100)"
proof (intro conjI impI)
  assume "0 < s"
  then have "- real_of_int s * 0.3 \<le> - (3/10)" by simp
  then have "exp (- real_of_int s * 0.3) \<le> exp (- (3/10) :: real)" by (simp only: exp_le_cancel_iff)
  then have x: "exp (- real_of_int s * 0.3) \<le> 7408183 / 10000000"
    using exp_m03_bounds by linarith
  have "1 / (1 + 7408183 / 10000000) \<le> 1 / (1 + exp (- real_of_int s * 0.3))"
    using x by (intro divide_left_mono) (simp_all add: add_pos_pos)
  then show "57 / 100 \<le> 1 / (1 + exp (- real_of_int s * 0.3))" by simp
next
  assume "s < 0"
  then have "(3/10) \<le> - real_of_int s * 0.3" by simp
  then have "exp (3/10 :: real) \<le> exp (- real_of_int s * 0.3)" by (simp only: exp_le_cancel_iff)
  moreover have "exp (3/10 :: real) = 1 / exp (- (3/10))" by (simp add: exp_minus field_simps)
  moreover have "1 / (7408183 / 10000000) \<le> 1 / exp (- (3/10) :: real)"
    using exp_m03_bounds by (intro divide_left_mono) simp_all
  ultimately have x: "10000000 / 7408183 \<le> exp (- real_of_int s * 0.3)" by simp
  have "1 / (1 + exp (- real_of_int s * 0.3)) \<le> 1 / (1 + 10000000 / 7408183)"
    using x by (intro divide_left_mono) (simp_all add: add_pos_pos)
  then show "1 / (1 + exp (- real_of_int s * 0.3)) \<le> 43 / 100" by simp
qed

text \<open>
  Claim C2. For the input with class 1, sex female, age 29, no relatives, fare 211.34
  and port S, \<open>predictSurvival\<close> returns the score 7, the probability
  \<open>1 / (1 + exp (- 2.1))\<close>, which is 0.8909 up to \<open>0.00001\<close>, and the outcome true.
\<close>

theorem fixture_prediction:
  "score (predictSurvival \<lparr> pclass = Val 1, sex = Val ''female'', age = Val 29, sibsp = Val 0,
      parch = Val 0, fare = Val 211.34, embarked = Val ''S'' \<rparr>) = 7
   \<and> probability (predictSurvival \<lparr> pclass = Val 1, sex = Val ''female'', age = Val 29,
      sibsp = Val 0, parch = Val 0, fare = Val 211.34, embarked = Val ''S'' \<rparr>)
     = 1 / (1 + exp (- 2.1))
   \<and> \<bar>probability (predictSurvival \<lparr> pclass = Val 1, sex = Val ''female'', age = Val 29,
      sibsp = Val 0, parch = Val 0, fare = Val 211.34, embarked = Val ''S'' \<rparr>) - 0.8909\<bar>
     < 0.00001
   \<and> survived (predictSurvival \<lparr> pclass = Val 1, sex = Val ''female'', age = Val 29,
      sibsp = Val 0, parch = Val 0, fare = Val 211.34, embarked = Val ''S'' \<rparr>) = True"
proof -
  let ?r = "predictSurvival \<lparr> pclass = Val 1, sex = Val ''female'', age = Val 29,
      sibsp = Val 0, parch = Val 0, fare = Val 211.34, embarked = Val ''S'' \<rparr>"
  have s: "score ?r = 7"
    unfolding score_Val by (simp add: adjustments)
  have p: "probability ?r = 1 / (1 + exp (- 2.1))"
    unfolding probability_def_score s by simp
  have a: "\<bar>probability ?r - 0.8909\<bar> < 0.00001"
    unfolding p using logistic_21 by simp
  have v: "survived ?r = True"
    by (simp only: survived_def_score logistic_gt_half s) simp
  from s p a v show ?thesis by blast
qed

subsection \<open>Properties beyond the seven\<close>

text \<open>
  Whatever else two inputs carry, the same seven properties give the same prediction.
\<close>

lemma predictSurvival_extension:
  assumes "pclass a = pclass b" and "sex a = sex b" and "age a = age b"
    and "sibsp a = sibsp b" and "parch a = parch b" and "fare a = fare b"
    and "embarked a = embarked b"
  shows "predictSurvival a = predictSurvival b"
  by (simp only: predictSurvival_def assms)

subsection \<open>Validation of the request body\<close>

lemma validate_find:
  "validate pd fs = find (\<lambda>f. get_prop pd f = JUndefined \<or> get_prop pd f = JNull) fs"
  by (induction fs) simp_all

lemma num_prop_nullish: "(num_prop v = JUndefined \<or> num_prop v = JNull) = nullish v"
  by (cases v) (simp_all add: num_prop_def nullish_def)

lemma str_prop_nullish: "(str_prop v = JUndefined \<or> str_prop v = JNull) = nullish v"
  by (cases v) (simp_all add: str_prop_def nullish_def)

lemma validate_required:
  "validate pd requiredFields = (case missing_fields pd of [] \<Rightarrow> None | f # _ \<Rightarrow> Some f)"
  by (simp add: requiredFields_def get_prop_def num_prop_nullish str_prop_nullish
      missing_fields_def)

lemma features_def_input:
  "features (predictSurvival pd) =
     \<lparr> gender_impact = (if sex pd = Val ''female'' then ''Alto'' else ''Bajo''),
       class_impact = (if pclass pd = Val 1 then ''Alto''
                       else if pclass pd = Val 2 then ''Medio'' else ''Bajo''),
       age_group = (if js_le (ToNumber (age pd)) 12 then ''Ni'' @ [CHR 0xC3, CHR 0xB1] @ ''o''
                    else if js_le (ToNumber (age pd)) 25 then ''Joven''
                    else if js_gt (ToNumber (age pd)) 60 then ''Mayor''
                    else ''Adulto''),
       family_impact = (if js_gt (js_add (sibsp pd) (parch pd)) 0 then ''Positivo''
                        else ''Neutral'') \<rparr>"
  unfolding predictSurvival_def Let_def by (simp only: prediction.simps)

lemma survived_positive: "survived (predictSurvival pd) = (0 < score (predictSurvival pd))"
  by (simp only: survived_def_score logistic_gt_half)

lemma predict_endpoint_missing:
  "missing_fields body = field # rest \<Longrightarrow>
   predict_endpoint body = Inl (400, ''Campo requerido faltante: '' @ field)"
  by (simp add: predict_endpoint_def validate_required)

lemma predict_endpoint_complete:
  "missing_fields body = [] \<Longrightarrow>
   predict_endpoint body =
     Inr \<lparr> survived = survived (predictSurvival body),
           probability = probability (predictSurvival body),
           score = score (predictSurvival body),
           features = features (predictSurvival body),
           message = (if survived (predictSurvival body)
                      then ''Probable superviviente basado en patrones hist''
                           @ [CHR 0xC3, CHR 0xB3] @ ''ricos''
                      else ''Probable no superviviente basado en patrones hist''
                           @ [CHR 0xC3, CHR 0xB3] @ ''ricos'') \<rparr>"
  by (simp add: predict_endpoint_def validate_required Let_def)

text \<open>
  Claim C3. For every request body: if one of the seven fields is absent or \<^verbatim>\<open>null\<close>,
  the endpoint answers with status 400 and a message that names the first missing field
  in the order pclass, sex, age, sibsp, parch, fare, embarked; if all seven are present
  and not \<^verbatim>\<open>null\<close>, it answers with the prediction instead. The first part of the
  theorem gives the answer for every body, the second part spells out the answer to a body
  with all seven fields, whose numbers are doubles: its score \<open>S\<close> is the sum of the
  adjustments, its outcome is
  \<open>0 < S\<close>, its probability the logistic transform of \<open>0.3 * S\<close>, its labels and its
  message are those of the source.
\<close>

theorem predict_endpoint_validation:
  "predict_endpoint body =
     (case missing_fields body of
        [] \<Rightarrow>
          Inr \<lparr> survived = survived (predictSurvival body),
                probability = probability (predictSurvival body),
                score = score (predictSurvival body),
                features = features (predictSurvival body),
                message = (if survived (predictSurvival body)
                           then ''Probable superviviente basado en patrones hist''
                                @ [CHR 0xC3, CHR 0xB3] @ ''ricos''
                           else ''Probable no superviviente basado en patrones hist''
                                @ [CHR 0xC3, CHR 0xB3] @ ''ricos'') \<rparr>
      | field # _ \<Rightarrow> Inl (400, ''Campo requerido faltante: '' @ field))
   \<and> (is_double c \<and> is_double a \<and> is_double sb \<and> is_double pc \<and> is_double f \<longrightarrow>
      predict_endpoint \<lparr> pclass = Val c, sex = Val s, age = Val a, sibsp = Val sb,
        parch = Val pc, fare = Val f, embarked = Val e, \<dots> = ext \<rparr>
     = (let S = sex_adjustment s + class_adjustment c + age_adjustment a
               + family_adjustment sb pc + fare_adjustment f + port_adjustment e
        in Inr \<lparr> survived = (0 < S),
                 probability = 1 / (1 + exp (- real_of_int S * 0.3)),
                 score = S,
                 features =
                   \<lparr> gender_impact = (if s = ''female'' then ''Alto'' else ''Bajo''),
                     class_impact = (if c = 1 then ''Alto''
                                     else if c = 2 then ''Medio'' else ''Bajo''),
                     age_group = (if a \<le> 12 then ''Ni'' @ [CHR 0xC3, CHR 0xB1] @ ''o''
                                  else if a \<le> 25 then ''Joven''
                                  else if 60 < a then ''Mayor''
                                  else ''Adulto''),
                     family_impact = (if js_gt (number_add (Finite sb) (Finite pc)) 0
                                      then ''Positivo'' else ''Neutral'') \<rparr>,
                 message = (if 0 < S
                            then ''Probable superviviente basado en patrones hist''
                                 @ [CHR 0xC3, CHR 0xB3] @ ''ricos''
                            else ''Probable no superviviente basado en patrones hist''
                                 @ [CHR 0xC3, CHR 0xB3] @ ''ricos'') \<rparr>))"
proof (intro conjI impI)
  show "predict_endpoint body =
     (case missing_fields body of
        [] \<Rightarrow>
          Inr \<lparr> survived = survived (predictSurvival body),
                probability = probability (predictSurvival body),
                score = score (predictSurvival body),
                features = features (predictSurvival body),
                message = (if survived (predictSurvival body)
                           then ''Probable superviviente basado en patrones hist''
                                @ [CHR 0xC3, CHR 0xB3] @ ''ricos''
                           else ''Probable no superviviente basado en patrones hist''
                                @ [CHR 0xC3, CHR 0xB3] @ ''ricos'') \<rparr>
      | field # _ \<Rightarrow> Inl (400, ''Campo requerido faltante: '' @ field))"
  proof (cases "missing_fields body")
    case Nil
    then show ?thesis by (simp only: predict_endpoint_complete list.case)
  next
    case (Cons field rest)
    then show ?thesis by (simp only: predict_endpoint_missing list.case)
  qed
next
  let ?b = "\<lparr> pclass = Val c, sex = Val s, age = Val a, sibsp = Val sb,
        parch = Val pc, fare = Val f, embarked = Val e, \<dots> = ext \<rparr>"
  have m: "missing_fields ?b = []"
    by (simp add: missing_fields_def nullish_def)
  have ft: "features (predictSurvival ?b) =
      \<lparr> gender_impact = (if s = ''female'' then ''Alto'' else ''Bajo''),
        class_impact = (if c = 1 then ''Alto'' else if c = 2 then ''Medio'' else ''Bajo''),
        age_group = (if a \<le> 12 then ''Ni'' @ [CHR 0xC3, CHR 0xB1] @ ''o''
                     else if a \<le> 25 then ''Joven''
                     else if 60 < a then ''Mayor''
                     else ''Adulto''),
        family_impact = (if js_gt (number_add (Finite sb) (Finite pc)) 0
                         then ''Positivo'' else ''Neutral'') \<rparr>"
    by (simp add: features_def_input ToNumber_def js_add_def del: number_add.simps)
  show "predict_endpoint ?b
     = (let S = sex_adjustment s + class_adjustment c + age_adjustment a
               + family_adjustment sb pc + fare_adjustment f + port_adjustment e
        in Inr \<lparr> survived = (0 < S),
                 probability = 1 / (1 + exp (- real_of_int S * 0.3)),
                 score = S,
                 features =
                   \<lparr> gender_impact = (if s = ''female'' then ''Alto'' else ''Bajo''),
                     class_impact = (if c = 1 then ''Alto''
                                     else if c = 2 then ''Medio'' else ''Bajo''),
                     age_group = (if a \<le> 12 then ''Ni'' @ [CHR 0xC3, CHR 0xB1] @ ''o''
                                  else if a \<le> 25 then ''Joven''
                                  else if 60 < a then ''Mayor''
                                  else ''Adulto''),
                     family_impact = (if js_gt (number_add (Finite sb) (Finite pc)) 0
                                      then ''Positivo'' else ''Neutral'') \<rparr>,
                 message = (if 0 < S
                            then ''Probable superviviente basado en patrones hist''
                                 @ [CHR 0xC3, CHR 0xB3] @ ''ricos''
                            else ''Probable no superviviente basado en patrones hist''
                                 @ [CHR 0xC3, CHR 0xB3] @ ''ricos'') \<rparr>)"
    unfolding Let_def
    by (simp only: predict_endpoint_complete [OF m] survived_positive probability_def_score
        score_Val ft)
qed

text \<open>
  Two instances: a body without \<^verbatim>\<open>fare\<close> whose \<^verbatim>\<open>sex\<close> is \<^verbatim>\<open>null\<close>, and the
  third record of the sample data of the source with a fare of 71, whose response has the
  score 10 and the message for a survivor.
\<close>

theorem predict_endpoint_validation_witness:
  "predict_endpoint \<lparr> pclass = Val 1, sex = Null, age = Val 29, sibsp = Val 0,
      parch = Val 0, fare = Undefined, embarked = Val ''S'' \<rparr>
   = Inl (400, ''Campo requerido faltante: sex'')
   \<and> predict_endpoint \<lparr> pclass = Val 1, sex = Val ''female'', age = Val 25, sibsp = Val 1,
      parch = Val 0, fare = Val 71, embarked = Val ''C'' \<rparr>
   = Inr \<lparr> survived = True,
           probability = 1 / (1 + exp (- 3)),
           score = 10,
           features = \<lparr> gender_impact = ''Alto'', class_impact = ''Alto'',
                        age_group = ''Joven'', family_impact = ''Positivo'' \<rparr>,
           message = ''Probable superviviente basado en patrones hist''
                     @ [CHR 0xC3, CHR 0xB3] @ ''ricos'' \<rparr>"
  using predict_endpoint_validation [where body = "\<lparr> pclass = Val 1, sex = Null,
      age = Val 29, sibsp = Val 0, parch = Val 0, fare = Undefined, embarked = Val ''S'' \<rparr>"
      and c = 1 and s = "''female''" and a = 25 and sb = 1 and pc = 0 and f = 71
      and e = "''C''" and ext = "()"]
  by (simp add: missing_fields_def nullish_def adjustments)

section \<open>Properties of the passenger service\<close>

subsection \<open>Pagination\<close>

lemma filter_interval_upt:
  "filter (\<lambda>i. int a \<le> int i \<and> int i < int b) [0..<n] = [a..<min b n]"
  by (induction n) auto

lemma index_slice_nat:
  "index_slice xs (int a) (int b) = take (min b (length xs) - a) (drop a xs)"
proof -
  have "index_slice xs (int a) (int b) = map (\<lambda>i. xs ! i) [a..<min b (length xs)]"
    by (simp only: index_slice_def filter_interval_upt)
  also have "\<dots> = take (min b (length xs) - a) (drop a xs)"
  proof (rule nth_equalityI)
    show "length (map (\<lambda>i. xs ! i) [a..<min b (length xs)])
        = length (take (min b (length xs) - a) (drop a xs))"
      by auto
  next
    fix i
    assume "i < length (map (\<lambda>i. xs ! i) [a..<min b (length xs)])"
    then have i: "i < min b (length xs) - a" by simp
    then have "a \<le> length xs" and "a + i < min b (length xs)" by linarith+
    then show "map (\<lambda>i. xs ! i) [a..<min b (length xs)] ! i
        = take (min b (length xs) - a) (drop a xs) ! i"
      using i by simp
  qed
  finally show ?thesis .
qed

lemma relative_index_nonneg:
  "0 \<le> a \<Longrightarrow> relative_index len (Finite (of_int a)) = min a len"
  by (simp add: relative_index_def Let_def)

lemma relative_index_range: "0 \<le> len \<Longrightarrow> 0 \<le> relative_index len n"
  by (cases n) (simp_all add: relative_index_def Let_def)

lemma relative_index_large:
  assumes "len \<le> 2 ^ 52" and "n = PosInfinity \<or> (\<exists>r. n = Finite r \<and> 2 ^ 52 \<le> r)"
  shows "relative_index len n = len"
  using assms(2)
proof
  assume "n = PosInfinity"
  then show ?thesis by (simp add: relative_index_def)
next
  assume "\<exists>r. n = Finite r \<and> 2 ^ 52 \<le> r"
  then obtain r where r: "n = Finite r" "2 ^ 52 \<le> r" by blast
  then have "(2::int) ^ 52 \<le> \<lfloor>r\<rfloor>" by (simp add: le_floor_iff)
  moreover have "(0::int) \<le> 2 ^ 52" by simp
  ultimately have "len \<le> \<lfloor>r\<rfloor>" and "0 \<le> \<lfloor>r\<rfloor>" using assms(1) by linarith+
  moreover have "\<not> r < 0" using r(2) by (smt (verit) zero_less_power)
  ultimately show ?thesis by (simp add: relative_index_def Let_def r(1))
qed

lemma slice_nonneg:
  assumes "0 \<le> a" "0 \<le> b"
  shows "slice xs (Finite (of_int a)) (Finite (of_int b)) = index_slice xs a b"
proof -
  obtain m n where a: "a = int m" and b: "b = int n"
    using assms by (metis nat_0_le)
  have "slice xs (Finite (of_int a)) (Finite (of_int b))
      = take (nat (min b (int (length xs)) - min a (int (length xs))))
          (drop (nat (min a (int (length xs)))) xs)"
    using assms by (simp only: slice_def Let_def relative_index_nonneg)
  then show ?thesis
    unfolding a b index_slice_nat
    by (auto simp: min_def nat_diff_distrib' simp flip: of_nat_diff)
qed

lemma slice_to_zero: "slice xs a (Finite 0) = []"
  using relative_index_range [of "int (length xs)" a]
  by (simp add: slice_def Let_def relative_index_def)

lemma slice_from_end:
  "relative_index (int (length xs)) a = int (length xs) \<Longrightarrow> slice xs a b = []"
  by (simp add: slice_def Let_def)

lemma index_slice_to_zero: "index_slice xs a 0 = []"
  by (simp add: index_slice_def)

lemma index_slice_length:
  assumes "a \<le> b"
  shows "int (length (index_slice xs a b)) \<le> b - a"
proof (cases "0 \<le> a")
  case True
  then obtain m n where "a = int m" "b = int n" using assms by (metis nat_0_le order_trans)
  then show ?thesis using assms by (simp add: index_slice_nat)
next
  case False
  show ?thesis
  proof (cases "0 \<le> b")
    case True
    then obtain n where b: "b = int n" by (metis nat_0_le)
    have "index_slice xs a b = index_slice xs 0 b"
      using False by (auto simp: index_slice_def intro!: arg_cong [where f = "map _"] filter_cong)
    then have "length (index_slice xs a b) \<le> n"
      using index_slice_nat [of xs 0 n] by (simp add: b)
    then show ?thesis using False b by linarith
  next
    case False
    then have "index_slice xs a b = []"
      by (auto simp: index_slice_def filter_empty_conv)
    then show ?thesis using assms by simp
  qed
qed

lemma index_slice_beyond: "int (length xs) \<le> a \<Longrightarrow> index_slice xs a b = []"
  by (auto simp: index_slice_def filter_empty_conv)

lemma safe_integer: "0 \<le> p \<Longrightarrow> p < 2 ^ 53 \<Longrightarrow> to_double (of_int p) = Finite (of_int p)"
  by (rule to_double_int) simp

text \<open>
  The arguments of \<^verbatim>\<open>slice\<close>: for a page and a limit that are doubles, each index
  is one rounding of the exact product.
\<close>

lemma list_passengers_data:
  assumes "0 \<le> p" and "p < 2 ^ 53" and "0 \<le> l" and "l < 2 ^ 53"
  shows "data (list_passengers ps (Some p) (Some l))
    = slice ps (to_double (of_int ((p - 1) * l))) (to_double (of_int (p * l)))"
proof -
  have P: "to_double (of_int p) = Finite (of_int p)"
    and L: "to_double (of_int l) = Finite (of_int l)"
    using assms by (simp_all only: safe_integer)
  have "\<bar>p - 1\<bar> < 2 ^ 53" using assms by simp
  then have "to_double (of_int (p - 1)) = Finite (of_int (p - 1))" by (rule to_double_int)
  moreover have "real_of_int p + - 1 = of_int (p - 1)" by simp
  ultimately have sub: "number_sub (Finite (of_int p)) (Finite 1) = Finite (of_int (p - 1))"
    by (simp only: number_sub_def number_neg.simps number_add.simps)
  have mul: "number_mul (Finite (of_int a)) (Finite (of_int b)) = to_double (of_int (a * b))"
    for a b :: int
    by (simp only: number_mul.simps of_int_mult)
  show ?thesis
    unfolding list_passengers_def Let_def
    by (simp only: option.case page_response.simps P L sub mul)
qed

lemma products:
  assumes "0 \<le> p" and "0 \<le> (l::int)" and "l < 2 ^ 53" and "2 ^ 53 \<le> p * l"
  shows "2 ^ 52 \<le> (p - 1) * l"
proof -
  define X where "X = (p - 1) * l"
  define Y where "Y = (p - 2) * l"
  have "p \<noteq> 0" and "p \<noteq> 1" using assms by auto
  then have "2 \<le> p" using assms(1) by linarith
  then have "0 \<le> Y" using assms(2) by (simp add: Y_def)
  moreover have "2 * X = p * l + Y" by (simp add: X_def Y_def algebra_simps)
  ultimately have "2 ^ 53 \<le> 2 * X" using assms(4) by linarith
  then show ?thesis by (simp add: X_def mult.commute)
qed

text \<open>
  Claim C4, as amended. For every page \<open>p\<close> and limit \<open>l\<close> that are integers from 0 to
  below \<open>2 ^ 53\<close>, supplied to the list endpoint of an array of passengers (an array has
  fewer than \<open>2 ^ 32\<close> elements; 1 and 20 stand in for an absent parameter), the returned
  data is the contiguous slice \<open>[(p - 1) * l, p * l)\<close> of the passenger list in its order,
  of length at most \<open>l\<close>, together with the total count and the echoed page and limit; a
  page beyond the end of the list yields an empty slice.
\<close>

theorem list_passengers_page:
  assumes "0 \<le> p" and "p < 2 ^ 53" and "0 \<le> l" and "l < 2 ^ 53"
    and "length ps < 2 ^ 32"
  shows "data (list_passengers ps (Some p) (Some l)) = index_slice ps ((p - 1) * l) (p * l)
    \<and> int (length (data (list_passengers ps (Some p) (Some l)))) \<le> l
    \<and> total (list_passengers ps (Some p) (Some l)) = length ps
    \<and> page (list_passengers ps (Some p) (Some l)) = Finite (of_int p)
    \<and> limit (list_passengers ps (Some p) (Some l)) = Finite (of_int l)
    \<and> (int (length ps) \<le> (p - 1) * l \<longrightarrow> data (list_passengers ps (Some p) (Some l)) = [])
    \<and> list_passengers ps None None = list_passengers ps (Some 1) (Some 20)
    \<and> list_passengers ps (Some p) None = list_passengers ps (Some p) (Some 20)
    \<and> list_passengers ps None (Some l) = list_passengers ps (Some 1) (Some l)"
proof -
  note dat = list_passengers_data [OF assms(1-4)]
  have P: "to_double (of_int p) = Finite (of_int p)"
    and L: "to_double (of_int l) = Finite (of_int l)"
    using assms by (simp_all only: safe_integer)
  have len: "int (length ps) \<le> 2 ^ 52" using assms(5) by simp
  have d: "data (list_passengers ps (Some p) (Some l)) = index_slice ps ((p - 1) * l) (p * l)"
  proof (cases "p = 0")
    case True
    then have e: "to_double (of_int (p * l)) = Finite 0" by simp
    have "index_slice ps ((p - 1) * l) (p * l) = []"
      using True by (simp add: index_slice_to_zero)
    then show ?thesis by (simp only: dat e slice_to_zero)
  next
    case False
    then have a: "0 \<le> (p - 1) * l" and b: "0 \<le> p * l" using assms by simp_all
    show ?thesis
    proof (cases "p * l < 2 ^ 53")
      case True
      have "(p - 1) * l \<le> p * l" using assms by (simp add: mult_right_mono)
      then have "(p - 1) * l < 2 ^ 53" using True by linarith
      then have "to_double (of_int ((p - 1) * l)) = Finite (of_int ((p - 1) * l))"
        using a by (intro safe_integer)
      moreover have "to_double (of_int (p * l)) = Finite (of_int (p * l))"
        using b True by (intro safe_integer)
      ultimately show ?thesis
        using a b by (simp only: dat slice_nonneg)
    next
      case False
      then have big: "2 ^ 52 \<le> (p - 1) * l"
        using products [of p l] assms by simp
      then have "(2::real) ^ 52 \<le> of_int ((p - 1) * l)"
        by (metis of_int_le_iff of_int_numeral of_int_power)
      then have "relative_index (int (length ps)) (to_double (of_int ((p - 1) * l)))
          = int (length ps)"
        using len by (intro relative_index_large to_double_large)
      then have "slice ps (to_double (of_int ((p - 1) * l))) (to_double (of_int (p * l))) = []"
        by (rule slice_from_end)
      moreover have "index_slice ps ((p - 1) * l) (p * l) = []"
        using big len by (intro index_slice_beyond) linarith
      ultimately show ?thesis by (simp only: dat)
    qed
  qed
  have "(p - 1) * l \<le> p * l" using assms by (simp add: mult_right_mono)
  then have "int (length (index_slice ps ((p - 1) * l) (p * l))) \<le> p * l - (p - 1) * l"
    by (rule index_slice_length)
  also have "p * l - (p - 1) * l = l" by (simp add: algebra_simps)
  finally have n: "int (length (data (list_passengers ps (Some p) (Some l)))) \<le> l"
    by (simp only: d)
  have e: "int (length ps) \<le> (p - 1) * l \<longrightarrow> data (list_passengers ps (Some p) (Some l)) = []"
    by (simp add: d index_slice_beyond)
  have r: "total (list_passengers ps (Some p) (Some l)) = length ps"
    "page (list_passengers ps (Some p) (Some l)) = Finite (of_int p)"
    "limit (list_passengers ps (Some p) (Some l)) = Finite (of_int l)"
    "list_passengers ps None None = list_passengers ps (Some 1) (Some 20)"
    "list_passengers ps (Some p) None = list_passengers ps (Some p) (Some 20)"
    "list_passengers ps None (Some l) = list_passengers ps (Some 1) (Some l)"
    by (simp_all add: list_passengers_def Let_def P L)
  from d n e r show ?thesis by blast
qed

text \<open>Instances: the second page of two records, and a page beyond the end.\<close>

theorem list_passengers_page_witness:
  "data (list_passengers sample_passengers (Some 2) (Some 2)) = [sample_passengers ! 2]
   \<and> data (list_passengers sample_passengers (Some 3) (Some 2)) = []
   \<and> total (list_passengers sample_passengers (Some 2) (Some 2)) = 3
   \<and> page (list_passengers sample_passengers (Some 2) (Some 2)) = Finite 2
   \<and> limit (list_passengers sample_passengers (Some 2) (Some 2)) = Finite 2"
  using list_passengers_page [of 2 2 sample_passengers]
    list_passengers_page [of 3 2 sample_passengers]
  by (simp add: index_slice_def sample_passengers_def upt_rec)

text \<open>
  Claim C4, as it is stated for every page and limit, fails. With page -1 and limit 1 the
  handler calls \<^verbatim>\<open>slice(-2, -1)\<close>, which counts from the end of the array and returns
  the second of three records, while no position lies in \<open>[-2, -1)\<close>. With page 1 and
  limit -1 it calls \<^verbatim>\<open>slice(0, -1)\<close> and returns two records, more than the limit.
  The page \<open>2 ^ 53 + 1\<close> is no double, and the echo is its neighbour \<open>2 ^ 53\<close>.
\<close>

theorem list_passengers_page_counterexample:
  "data (list_passengers sample_passengers (Some (- 1)) (Some 1))
     \<noteq> index_slice sample_passengers ((- 1 - 1) * 1) (- 1 * 1)
   \<and> \<not> int (length (data (list_passengers sample_passengers (Some 1) (Some (- 1))))) \<le> - 1
   \<and> page (list_passengers sample_passengers (Some 9007199254740993) (Some 1))
     \<noteq> Finite 9007199254740993"
  by (simp add: list_passengers_def Let_def slice_def relative_index_def number_sub_def
      index_slice_def sample_passengers_def to_double_first_unsafe)

subsection \<open>Lookup by identifier\<close>

text \<open>\<open>parseInt\<close> reads the decimal text of an integer back.\<close>

declare decimal.simps [simp del]

lemma of_char_digit: "d < 10 \<Longrightarrow> (of_char (digit_char d) :: nat) = 48 + d"
  by (simp add: digit_char_def)

lemma digit_value_digit: "d < 10 \<Longrightarrow> digit_value (digit_char d) = d"
  by (simp add: digit_value_def Let_def of_char_digit)

lemma white_space_code:
  "is_white_space c \<Longrightarrow> (of_char c :: nat) \<in> {32, 9, 10, 11, 12, 13}"
  by (auto simp: is_white_space_def)

lemma digit_not_space: "d < 10 \<Longrightarrow> \<not> is_white_space (digit_char d)"
  using white_space_code [of "digit_char d"] by (auto simp: of_char_digit)

lemma digit_not_char:
  assumes "d < 10" and "(of_char c :: nat) < 48 \<or> 57 < (of_char c :: nat)"
  shows "digit_char d \<noteq> c"
  using assms of_char_digit [of d] by auto

lemma decimal_digits: "digits (decimal n)"
proof (induction n rule: decimal.induct)
  case (1 n)
  show ?case
  proof (cases "n < 10")
    case True
    then show ?thesis by (auto simp: decimal.simps [of n] digits_def)
  next
    case False
    have "\<exists>d<10. digit_char (n mod 10) = digit_char d"
      by (rule exI [of _ "n mod 10"]) simp
    with False "1.IH" show ?thesis
      by (auto simp: decimal.simps [of n] digits_def)
  qed
qed

lemma decimal_value: "foldl (\<lambda>acc c. acc * 10 + digit_value c) 0 (decimal n) = n"
proof (induction n rule: decimal.induct)
  case (1 n)
  show ?case
  proof (cases "n < 10")
    case True
    then show ?thesis by (simp add: decimal.simps [of n] digit_value_digit)
  next
    case False
    have "n mod 10 < 10" by simp
    then have "digit_value (digit_char (n mod 10)) = n mod 10" by (rule digit_value_digit)
    with False "1.IH" show ?thesis by (simp add: decimal.simps [of n])
  qed
qed

lemma decimal_not_Nil: "decimal n \<noteq> []"
  by (simp add: decimal.simps [of n])

lemma parseInt_digits:
  assumes "S \<noteq> []" and all: "digits S"
  shows "parseInt S = Some (int (foldl (\<lambda>acc c. acc * 10 + digit_value c) 0 S))"
    and "parseInt (CHR ''-'' # S) = Some (- int (foldl (\<lambda>acc c. acc * 10 + digit_value c) 0 S))"
proof -
  obtain c cs where S: "S = c # cs" using assms(1) by (cases S) auto
  obtain d where d: "d < 10" "c = digit_char d" using all S by (auto simp: digits_def)
  have ns: "\<not> is_white_space c" using d digit_not_space by simp
  have nsign: "c \<noteq> CHR ''+''" "c \<noteq> CHR ''-''"
    using d digit_not_char [of d "CHR ''+''"] digit_not_char [of d "CHR ''-''"] by simp_all
  have nx: "cs = [] \<or> (hd cs \<noteq> CHR ''x'' \<and> hd cs \<noteq> CHR ''X'')"
  proof (cases cs)
    case Nil
    then show ?thesis by simp
  next
    case (Cons e es)
    then obtain k where "k < 10" "e = digit_char k" using all S by (auto simp: digits_def)
    then have "e \<noteq> CHR ''x''" "e \<noteq> CHR ''X''"
      using digit_not_char [of k "CHR ''x''"] digit_not_char [of k "CHR ''X''"] by simp_all
    with Cons show ?thesis by simp
  qed
  have nhex: "take 2 S \<noteq> ''0x''" "take 2 S \<noteq> ''0X''"
    using nx unfolding S by (cases cs; auto)+
  have tw: "takeWhile (\<lambda>c. digit_value c < 10) S = S"
    using all by (auto simp: digit_value_digit digits_def)
  have dw: "dropWhile is_white_space S = S" using ns by (simp add: S)
  have hdS: "hd S \<noteq> CHR ''+''" "hd S \<noteq> CHR ''-''" using nsign by (simp_all add: S)
  show "parseInt S = Some (int (foldl (\<lambda>acc c. acc * 10 + digit_value c) 0 S))"
    unfolding parseInt_def Let_def by (simp add: dw hdS nhex tw assms(1))
  have nm: "\<not> is_white_space (CHR ''-'')" by (simp add: is_white_space_def)
  show "parseInt (CHR ''-'' # S) = Some (- int (foldl (\<lambda>acc c. acc * 10 + digit_value c) 0 S))"
    unfolding parseInt_def Let_def by (simp add: nm nhex tw assms(1))
qed

lemma parseInt_int_text: "parseInt (int_text i) = Some i"
proof (cases "i < 0")
  case True
  then show ?thesis
    using parseInt_digits(2) [OF decimal_not_Nil decimal_digits, of "nat (- i)"]
    by (simp add: int_text_def decimal_value)
next
  case False
  then show ?thesis
    using parseInt_digits(1) [OF decimal_not_Nil decimal_digits, of "nat i"]
    by (simp add: int_text_def decimal_value)
qed

lemma get_passenger_Inr:
  "get_passenger ps s = Inr p \<longleftrightarrow> find (\<lambda>p. Some (PassengerId p) = parseInt s) ps = Some p"
  by (simp add: get_passenger_def split: option.splits)

lemma get_passenger_Inl:
  "get_passenger ps s = Inl e \<longleftrightarrow>
     e = (404, ''Pasajero no encontrado'') \<and> find (\<lambda>p. Some (PassengerId p) = parseInt s) ps = None"
  by (auto simp add: get_passenger_def split: option.splits)

text \<open>
  Claim C5. For every id parameter, the lookup returns the first record of the list
  whose \<open>PassengerId\<close> equals the parsed integer value of the parameter, and answers 404
  exactly when there is no such record; every identifier in the list is retrievable: a
  parameter text exists for which the lookup returns a record with this identifier.
\<close>

theorem get_passenger_lookup:
  "(case get_passenger ps s of
      Inr p \<Rightarrow> \<exists>i<length ps. ps ! i = p \<and> Some (PassengerId p) = parseInt s
                 \<and> (\<forall>j<i. Some (PassengerId (ps ! j)) \<noteq> parseInt s)
    | Inl e \<Rightarrow> e = (404, ''Pasajero no encontrado''))
   \<and> ((\<exists>e. get_passenger ps s = Inl e) \<longleftrightarrow> (\<forall>p\<in>set ps. Some (PassengerId p) \<noteq> parseInt s))
   \<and> (\<forall>p\<in>set ps. \<exists>s' p'. get_passenger ps s' = Inr p' \<and> PassengerId p' = PassengerId p)"
proof (intro conjI ballI)
  show "case get_passenger ps s of
      Inr p \<Rightarrow> \<exists>i<length ps. ps ! i = p \<and> Some (PassengerId p) = parseInt s
                 \<and> (\<forall>j<i. Some (PassengerId (ps ! j)) \<noteq> parseInt s)
    | Inl e \<Rightarrow> e = (404, ''Pasajero no encontrado'')"
  proof (cases "get_passenger ps s")
    case (Inl e)
    then have "e = (404, ''Pasajero no encontrado'')"
      by (simp add: get_passenger_Inl)
    with Inl show ?thesis by simp
  next
    case (Inr p)
    then have "find (\<lambda>p. Some (PassengerId p) = parseInt s) ps = Some p"
      by (simp add: get_passenger_Inr)
    then have "\<exists>i<length ps. ps ! i = p \<and> Some (PassengerId p) = parseInt s
                 \<and> (\<forall>j<i. Some (PassengerId (ps ! j)) \<noteq> parseInt s)"
      unfolding find_Some_iff by blast
    with Inr show ?thesis by simp
  qed
  show "(\<exists>e. get_passenger ps s = Inl e) \<longleftrightarrow> (\<forall>p\<in>set ps. Some (PassengerId p) \<noteq> parseInt s)"
    by (auto simp add: get_passenger_Inl find_None_iff)
next
  fix p assume p: "p \<in> set ps"
  let ?s = "int_text (PassengerId p)"
  have "find (\<lambda>q. Some (PassengerId q) = parseInt ?s) ps \<noteq> None"
    using p by (auto simp add: find_None_iff parseInt_int_text)
  then obtain p' where f: "find (\<lambda>q. Some (PassengerId q) = parseInt ?s) ps = Some p'"
    by blast
  then have "PassengerId p' = PassengerId p"
    by (auto simp add: find_Some_iff parseInt_int_text)
  moreover have "get_passenger ps ?s = Inr p'"
    using f by (simp add: get_passenger_Inr)
  ultimately show "\<exists>s' p'. get_passenger ps s' = Inr p' \<and> PassengerId p' = PassengerId p"
    by blast
qed

text \<open>Instances: an identifier of the sample, and one that the sample lacks.\<close>

theorem get_passenger_lookup_witness:
  "get_passenger sample_passengers ''2'' = Inr (sample_passengers ! 1)
   \<and> get_passenger sample_passengers ''7'' = Inl (404, ''Pasajero no encontrado'')
   \<and> (\<exists>s' p'. get_passenger sample_passengers s' = Inr p' \<and> PassengerId p' = 3)"
proof -
  have a: "get_passenger sample_passengers ''2'' = Inr (sample_passengers ! 1)"
    by (simp add: get_passenger_def sample_passengers_def parseInt_def Let_def
        is_white_space_def digit_value_def)
  have b: "get_passenger sample_passengers ''7'' = Inl (404, ''Pasajero no encontrado'')"
    by (simp add: get_passenger_def sample_passengers_def parseInt_def Let_def
        is_white_space_def digit_value_def)
  have m: "sample_passengers ! 2 \<in> set sample_passengers"
    by (simp add: sample_passengers_def)
  have i: "PassengerId (sample_passengers ! 2) = 3"
    by (simp add: sample_passengers_def)
  have c: "\<exists>s' p'. get_passenger sample_passengers s' = Inr p' \<and> PassengerId p' = 3"
    using get_passenger_lookup [of sample_passengers "''2''"] m i by metis
  from a b c show ?thesis by blast
qed

subsection \<open>Filters\<close>

text \<open>
  Claim C6. The filter by class, the filter by survival and the case-insensitive search
  by a part of the name each return a subsequence of the passenger list: the records that
  match, in their original order (\<open>filter\<close> keeps the order and removes exactly the
  records that do not match); applying the same filter to its own output returns the
  output unchanged. The search compares the lower-case forms of the name and of the
  search text, so the case of the search text does not matter.
\<close>

lemma toLowerCase_idem: "toLowerCase (toLowerCase s) = toLowerCase s"
  by (induction s) (auto simp: toLowerCase_def Let_def)

theorem filters_subsequence_idempotent:
  "class_data (filter_by_class ps c) = filter (\<lambda>p. Some (Pclass p) = parseInt c) ps
   \<and> subseq (class_data (filter_by_class ps c)) ps
   \<and> class_data (filter_by_class (class_data (filter_by_class ps c)) c)
       = class_data (filter_by_class ps c)
   \<and> survived_data (filter_by_survived ps st) = filter (\<lambda>p. Some (Survived p) = parseInt st) ps
   \<and> subseq (survived_data (filter_by_survived ps st)) ps
   \<and> survived_data (filter_by_survived (survived_data (filter_by_survived ps st)) st)
       = survived_data (filter_by_survived ps st)
   \<and> search_data (search_by_name ps n)
       = filter (\<lambda>p. str_includes (toLowerCase (Name p)) (toLowerCase n)) ps
   \<and> subseq (search_data (search_by_name ps n)) ps
   \<and> search_data (search_by_name (search_data (search_by_name ps n)) n)
       = search_data (search_by_name ps n)
   \<and> search_data (search_by_name ps (toLowerCase n)) = search_data (search_by_name ps n)"
  by (simp add: filter_by_class_def filter_by_survived_def search_by_name_def Let_def
      toLowerCase_idem)

text \<open>Instances on the sample: class 3, survivors, and the names with \<^verbatim>\<open>miss\<close>.\<close>

theorem filters_subsequence_idempotent_witness:
  "class_data (filter_by_class sample_passengers ''3'')
     = [sample_passengers ! 0, sample_passengers ! 2]
   \<and> survived_data (filter_by_survived sample_passengers ''1'')
     = [sample_passengers ! 1, sample_passengers ! 2]
   \<and> search_data (search_by_name sample_passengers ''MISS'') = [sample_passengers ! 2]
   \<and> subseq (search_data (search_by_name sample_passengers ''MISS'')) sample_passengers"
proof -
  have a: "filter (\<lambda>p. Some (Pclass p) = parseInt ''3'') sample_passengers
      = [sample_passengers ! 0, sample_passengers ! 2]"
    by code_simp
  have b: "filter (\<lambda>p. Some (Survived p) = parseInt ''1'') sample_passengers
      = [sample_passengers ! 1, sample_passengers ! 2]"
    by code_simp
  have c: "filter (\<lambda>p. str_includes (toLowerCase (Name p)) (toLowerCase ''MISS''))
      sample_passengers = [sample_passengers ! 2]"
    by code_simp
  note t = filters_subsequence_idempotent [of sample_passengers "''3''" "''1''" "''MISS''"]
  show ?thesis
  proof (intro conjI)
    show "class_data (filter_by_class sample_passengers ''3'')
        = [sample_passengers ! 0, sample_passengers ! 2]"
      using t a by presburger
    show "survived_data (filter_by_survived sample_passengers ''1'')
        = [sample_passengers ! 1, sample_passengers ! 2]"
      using t b by presburger
    show "search_data (search_by_name sample_passengers ''MISS'') = [sample_passengers ! 2]"
      using t c by presburger
    show "subseq (search_data (search_by_name sample_passengers ''MISS'')) sample_passengers"
      using t by blast
  qed
qed

subsection \<open>Statistics\<close>

text \<open>
  Claim C7. For every passenger list in which the class of each record is 1, 2 or 3 and
  the sex of each record is male or female, the counts by class of the statistics add up
  to the total count of passengers, and so do the counts by sex.
\<close>

theorem stats_partition:
  assumes "\<forall>p\<in>set ps. Pclass p = 1 \<or> Pclass p = 2 \<or> Pclass p = 3"
    and "\<forall>p\<in>set ps. Sex p = ''male'' \<or> Sex p = ''female''"
  shows "class1 (byClass (stats_summary ps)) + class2 (byClass (stats_summary ps))
       + class3 (byClass (stats_summary ps)) = totalPassengers (stats_summary ps)
    \<and> male (byGender (stats_summary ps)) + female (byGender (stats_summary ps))
       = totalPassengers (stats_summary ps)
    \<and> totalPassengers (stats_summary ps) = length ps"
proof -
  have c: "length (filter (\<lambda>p. Pclass p = 1) ps) + length (filter (\<lambda>p. Pclass p = 2) ps)
      + length (filter (\<lambda>p. Pclass p = 3) ps) = length ps"
    using assms(1) by (induction ps) auto
  have g: "length (filter (\<lambda>p. Sex p = ''male'') ps)
      + length (filter (\<lambda>p. Sex p = ''female'') ps) = length ps"
    using assms(2) by (induction ps) auto
  show ?thesis
    using c g by (simp add: stats_summary_def Let_def)
qed

text \<open>The sample satisfies both conditions.\<close>

theorem stats_partition_witness:
  "class1 (byClass (stats_summary sample_passengers))
     + class2 (byClass (stats_summary sample_passengers))
     + class3 (byClass (stats_summary sample_passengers)) = 3
   \<and> male (byGender (stats_summary sample_passengers))
     + female (byGender (stats_summary sample_passengers)) = 3"
proof -
  have 1: "\<forall>p\<in>set sample_passengers. Pclass p = 1 \<or> Pclass p = 2 \<or> Pclass p = 3"
    by (simp add: sample_passengers_def)
  have 2: "\<forall>p\<in>set sample_passengers. Sex p = ''male'' \<or> Sex p = ''female''"
    by (simp add: sample_passengers_def)
  have 3: "length sample_passengers = 3" by (simp add: sample_passengers_def)
  show ?thesis using stats_partition [OF 1 2] 3 by simp
qed

end
